theory Spec2Isabelle
  imports Complex_Main
begin

section \<open>Payment monitor: a shallow embedding of \<open>src/index.js\<close>\<close>

text \<open>
  The program is one Express application: an audit log (\<open>addLog\<close>), two sinks
  (\<open>sendGmailAlert\<close>, \<open>addToAirtable\<close>), the pipeline \<open>processFailedPayment\<close> and the
  routes. JavaScript is modelled as follows.
  \<^item> A property that may be missing or \<open>null\<close> has type \<open>'a js\<close>.
  \<^item> Strings are byte strings (UTF-8); the source builds them by concatenation and
    upper-cases the currency code.
  \<^item> A thrown exception is a value \<open>Inl e\<close> of a sum type; \<open>try\<close>/\<open>catch\<close> is a case
    distinction on it. Thrown values are \<open>Error\<close> objects, which carry a \<open>message\<close>.
  \<^item> The module variable \<open>logs\<close>, the console and the calls made to the remote services
    are fields of a \<open>world\<close> that every function takes and returns.
  \<^item> The remote services (Gmail, Airtable, Stripe's signature check) and the wall clock
    are parameters, collected in \<open>env\<close>.
\<close>

subsection \<open>JavaScript values\<close>

datatype 'a js = Undefined | Null | Val 'a

datatype js_error = JsError string string

fun error_message :: "js_error \<Rightarrow> string" where
  "error_message (JsError name msg) = msg"

text \<open>Interpolation \<open>${v}\<close> of a string-valued property in a template literal.\<close>

fun js_String :: "string js \<Rightarrow> string" where
  "js_String Undefined = ''undefined''"
| "js_String Null = ''null''"
| "js_String (Val s) = s"

text \<open>Truthiness of a string-valued property: missing, \<open>null\<close> and \<open>''\<close> are falsy.\<close>

fun truthy :: "string js \<Rightarrow> bool" where
  "truthy (Val s) = (s \<noteq> [])"
| "truthy _ = False"

text \<open>\<open>a || b\<close>\<close>

definition js_or :: "string js \<Rightarrow> string js \<Rightarrow> string js" where
  "js_or a b = (if truthy a then a else b)"

text \<open>\<open>xs.slice(-n)\<close>: the start index is \<open>max (length + (-n)) 0\<close>.\<close>

definition js_slice_neg :: "nat \<Rightarrow> 'a list \<Rightarrow> 'a list" where
  "js_slice_neg n xs = drop (nat (max (int (length xs) - int n) 0)) xs"

subsection \<open>Numbers, decimal rendering and \<open>toFixed(2)\<close>\<close>

text \<open>
  A JavaScript Number is modelled as \<open>NaN\<close> or an exact rational. Amounts are integers
  of minor units. For an integer \<open>a\<close> with \<open>\<bar>a\<bar> < 2 ^ 46\<close> the double \<open>a / 100\<close> lies
  within \<open>2 ^ -8\<close> of the exact quotient, which is less than half a cent, so
  \<open>toFixed(2)\<close> picks the same digits on the double as on the rational, and the
  shortest decimal that reads back as the double is the two-decimal quotient itself.
  Theorems about rendered amounts are stated for that range (\<open>amount_in_range\<close>).
\<close>

datatype jsnumber = NaN | Num rat

definition amount_in_range :: "int \<Rightarrow> bool" where
  "amount_in_range a = (\<bar>a\<bar> < 2 ^ 46)"

text \<open>\<open>v / 100\<close> for a property holding an integer: \<open>undefined\<close> converts to \<open>NaN\<close>,
  \<open>null\<close> to \<open>0\<close>.\<close>

fun js_div100 :: "int js \<Rightarrow> jsnumber" where
  "js_div100 Undefined = NaN"
| "js_div100 Null = Num 0"
| "js_div100 (Val a) = Num (of_int a / 100)"

definition digit :: "nat \<Rightarrow> char" where
  "digit n = ''0123456789'' ! n"

fun digits :: "nat \<Rightarrow> string" where
  "digits n = (if n < 10 then [digit n] else digits (n div 10) @ [digit (n mod 10)])"

text \<open>\<open>String(n).padStart(w, '0')\<close>\<close>

definition pad :: "nat \<Rightarrow> nat \<Rightarrow> string" where
  "pad w n = replicate (w - length (digits n)) (CHR ''0'') @ digits n"

text \<open>
  \<open>Number.prototype.toFixed(2)\<close>: the sign is split off, \<open>n\<close> is the integer nearest to
  \<open>100 * \<bar>x\<bar>\<close> (the larger one on a tie), and the last two digits of \<open>n\<close> follow the
  point. (Values from \<open>10 ^ 21\<close> on, which print in exponent form, are outside
  \<open>amount_in_range\<close>.)
\<close>

fun js_toFixed2 :: "jsnumber \<Rightarrow> string" where
  "js_toFixed2 NaN = ''NaN''"
| "js_toFixed2 (Num x) =
     (let n = nat \<lfloor>\<bar>x\<bar> * 100 + 1 / 2\<rfloor>
      in (if x < 0 then ''-'' else []) @ digits (n div 100) @ ''.'' @
         [digit (n mod 100 div 10), digit (n mod 10)])"

text \<open>The decimal rendering of an integer number of cents, for comparison.\<close>

definition cents_string :: "int \<Rightarrow> string" where
  "cents_string a =
     (if a < 0 then ''-'' else []) @ digits (nat \<bar>a\<bar> div 100) @ ''.'' @ pad 2 (nat \<bar>a\<bar> mod 100)"

subsection \<open>Strings\<close>

text \<open>\<open>toUpperCase\<close> on the ASCII letters (currency codes are ASCII).\<close>

definition upper_char :: "char \<Rightarrow> char" where
  "upper_char c =
     (let k = (of_char c :: nat) in if 97 \<le> k \<and> k \<le> 122 then char_of (k - 32) else c)"

text \<open>\<open>v.toUpperCase()\<close>: reading a property of \<open>undefined\<close> or \<open>null\<close> throws.\<close>

fun js_toUpperCase :: "string js \<Rightarrow> js_error + string" where
  "js_toUpperCase Undefined =
     Inl (JsError ''TypeError'' ''Cannot read properties of undefined (reading 'toUpperCase')'')"
| "js_toUpperCase Null =
     Inl (JsError ''TypeError'' ''Cannot read properties of null (reading 'toUpperCase')'')"
| "js_toUpperCase (Val s) = Inr (map upper_char s)"

text \<open>\<open>lines.join('\n')\<close>\<close>

fun join_lines :: "string list \<Rightarrow> string" where
  "join_lines [] = []"
| "join_lines [l] = l"
| "join_lines (l # ls) = l @ ''\<newline>'' @ join_lines ls"

text \<open>
  \<open>Buffer.from(message).toString('base64')\<close> followed by the three \<open>replace\<close> calls of
  lines 71-73: \<open>+\<close> becomes \<open>-\<close>, \<open>/\<close> becomes \<open>_\<close>, the trailing \<open>=\<close> are removed.
\<close>

definition base64_char :: "nat \<Rightarrow> char" where
  "base64_char n =
     ''ABCDEFGHIJKLMNOPQRSTUVWXYZabcdefghijklmnopqrstuvwxyz0123456789+/'' ! n"

fun base64 :: "nat list \<Rightarrow> string" where
  "base64 (a # b # c # rest) =
     [base64_char (a div 4), base64_char (a mod 4 * 16 + b div 16),
      base64_char (b mod 16 * 4 + c div 64), base64_char (c mod 64)] @ base64 rest"
| "base64 [a, b] =
     [base64_char (a div 4), base64_char (a mod 4 * 16 + b div 16),
      base64_char (b mod 16 * 4), CHR ''='']"
| "base64 [a] = [base64_char (a div 4), base64_char (a mod 4 * 16), CHR ''='', CHR ''='']"
| "base64 [] = []"

definition encode_raw :: "string \<Rightarrow> string" where
  "encode_raw m =
     (let b = base64 (map of_char m);
          b1 = map (\<lambda>c. if c = CHR ''+'' then CHR ''-'' else c) b;
          b2 = map (\<lambda>c. if c = CHR ''/'' then CHR ''_'' else c) b1
      in rev (dropWhile (\<lambda>c. c = CHR ''='') (rev b2)))"

subsection \<open>Dates\<close>

text \<open>
  A Date holds a time value: milliseconds since the epoch, or \<open>NaN\<close> (here \<open>None\<close>).
  \<open>js_times1000\<close> is \<open>event.created * 1000\<close>, \<open>new_Date\<close> clips to the range of Date,
  and \<open>toISOString\<close> throws a RangeError on an invalid Date. The calendar date is computed
  from the day number by the usual era-based conversion of the proleptic Gregorian
  calendar, which is the calendar of the language standard.
\<close>

fun js_times1000 :: "int js \<Rightarrow> int option" where
  "js_times1000 Undefined = None"
| "js_times1000 Null = Some 0"
| "js_times1000 (Val c) = Some (c * 1000)"

fun new_Date :: "int option \<Rightarrow> int option" where
  "new_Date None = None"
| "new_Date (Some t) = (if \<bar>t\<bar> > 8640000000000000 then None else Some t)"

definition civil_from_days :: "int \<Rightarrow> int \<times> int \<times> int" where
  "civil_from_days d =
     (let z = d + 719468;
          era = z div 146097;
          doe = z mod 146097;
          yoe = (doe - doe div 1460 + doe div 36524 - doe div 146096) div 365;
          y = yoe + era * 400;
          doy = doe - (365 * yoe + yoe div 4 - yoe div 100);
          mp = (5 * doy + 2) div 153;
          dd = doy - (153 * mp + 2) div 5 + 1;
          m = (if mp < 10 then mp + 3 else mp - 9)
      in (if m \<le> 2 then y + 1 else y, m, dd))"

definition year_string :: "int \<Rightarrow> string" where
  "year_string y =
     (if 0 \<le> y \<and> y \<le> 9999 then pad 4 (nat y)
      else (if y < 0 then ''-'' else ''+'') @ pad 6 (nat \<bar>y\<bar>))"

definition iso_string :: "int \<Rightarrow> string" where
  "iso_string t =
     (let (y, m, d) = civil_from_days (t div 86400000);
          r = t mod 86400000
      in year_string y @ ''-'' @ pad 2 (nat m) @ ''-'' @ pad 2 (nat d) @ ''T'' @
         pad 2 (nat (r div 3600000)) @ '':'' @ pad 2 (nat (r div 60000 mod 60)) @ '':'' @
         pad 2 (nat (r div 1000 mod 60)) @ ''.'' @ pad 3 (nat (r mod 1000)) @ ''Z'')"

fun toISOString :: "int option \<Rightarrow> js_error + string" where
  "toISOString None = Inl (JsError ''RangeError'' ''Invalid time value'')"
| "toISOString (Some t) = Inr (iso_string t)"

subsection \<open>Provider events and the canonical record\<close>

text \<open>
  \<open>event.data.object\<close> is read as one object type with every property the three
  branches look at; a property the provider did not send is \<open>Undefined\<close>. The record
  \<open>payment_data\<close> is the object \<open>paymentData\<close>, with the source's property names.
\<close>

record payment_error =
  pe_code :: "string js"
  pe_message :: "string js"

record billing_details =
  bd_email :: "string js"

record stripe_object =
  obj_id :: "string js"
  receipt_email :: "string js"
  obj_customer_email :: "string js"
  obj_amount :: "int js"
  amount_due :: "int js"
  obj_currency :: "string js"
  last_payment_error :: "payment_error js"
  billing_details :: "billing_details js"
  obj_failure_code :: "string js"
  obj_failure_message :: "string js"

record event =
  ev_type :: string
  created :: "int js"
  data_object :: stripe_object

record payment_data =
  payment_id :: "string js"
  customer_email :: "string js"
  amount :: "int js"
  currency :: "string js"
  failure_code :: "string js"
  failure_message :: "string js"
  failed_at :: "string js"

text \<open>Optional chaining \<open>v?.p\<close>\<close>

fun opt_chain :: "'a js \<Rightarrow> ('a \<Rightarrow> 'b js) \<Rightarrow> 'b js" where
  "opt_chain (Val v) p = p v"
| "opt_chain _ p = Undefined"

text \<open>The object \<open>{}\<close> that \<open>paymentData\<close> starts as.\<close>

definition empty_payment_data :: payment_data where
  "empty_payment_data =
     \<lparr>payment_id = Undefined, customer_email = Undefined, amount = Undefined,
      currency = Undefined, failure_code = Undefined, failure_message = Undefined,
      failed_at = Undefined\<rparr>"

text \<open>Lines 116-151: the three branches that build \<open>paymentData\<close>. Only
  \<open>toISOString\<close> can throw there.\<close>

definition normalize :: "event \<Rightarrow> js_error + payment_data" where
  "normalize ev =
     (let ob = data_object ev in
      if ev_type ev = ''payment_intent.payment_failed'' then
        (case toISOString (new_Date (js_times1000 (created ev))) of
           Inl e \<Rightarrow> Inl e
         | Inr stamp \<Rightarrow> Inr
             \<lparr>payment_id = obj_id ob,
              customer_email = js_or (receipt_email ob) (Val ''Unknown''),
              amount = obj_amount ob,
              currency = obj_currency ob,
              failure_code = opt_chain (last_payment_error ob) pe_code,
              failure_message = opt_chain (last_payment_error ob) pe_message,
              failed_at = Val stamp\<rparr>)
      else if ev_type ev = ''invoice.payment_failed'' then
        (case toISOString (new_Date (js_times1000 (created ev))) of
           Inl e \<Rightarrow> Inl e
         | Inr stamp \<Rightarrow> Inr
             \<lparr>payment_id = obj_id ob,
              customer_email = js_or (obj_customer_email ob) (Val ''Unknown''),
              amount = amount_due ob,
              currency = obj_currency ob,
              failure_code = Val ''invoice_payment_failed'',
              failure_message = Val ''Invoice payment failed'',
              failed_at = Val stamp\<rparr>)
      else if ev_type ev = ''charge.failed'' then
        (case toISOString (new_Date (js_times1000 (created ev))) of
           Inl e \<Rightarrow> Inl e
         | Inr stamp \<Rightarrow> Inr
             \<lparr>payment_id = obj_id ob,
              customer_email =
                js_or (js_or (receipt_email ob) (opt_chain (billing_details ob) bd_email))
                  (Val ''Unknown''),
              amount = obj_amount ob,
              currency = obj_currency ob,
              failure_code = obj_failure_code ob,
              failure_message = obj_failure_message ob,
              failed_at = Val stamp\<rparr>)
      else Inr empty_payment_data)"

text \<open>The list the webhook route filters on (line 174).\<close>

definition recognized_types :: "string list" where
  "recognized_types =
     [''payment_intent.payment_failed'', ''invoice.payment_failed'', ''charge.failed'']"

subsection \<open>The world and the collaborators\<close>

record log_entry =
  timestamp :: string
  message :: string

text \<open>The row handed to \<open>table.create\<close> (lines 92-102) and the record it answers with.\<close>

record airtable_fields =
  Payment_ID :: "string js"
  Customer_Email :: "string js"
  Amount :: jsnumber
  Currency :: string
  Failure_Code :: "string js"
  Failure_Message :: "string js"
  Failed_At :: "string js"
  Status :: string
  Created_At :: string

record airtable_record =
  rec_id :: string

text \<open>
  \<open>trace\<close> lists, in order, every entry into a pipeline function and every call of a
  remote service with its argument. The program never reads it; it is what a test's
  call counters would see.
\<close>

datatype call =
    Enter_processFailedPayment event
  | Enter_sendGmailAlert payment_data
  | Enter_addToAirtable payment_data
  | Call_gmail_send string
  | Call_table_create airtable_fields

record world =
  logs :: "log_entry list"
  console :: "string list"
  ticks :: nat
  trace :: "call list"

text \<open>What \<open>req.body\<close> can hold: nothing read, a parsed JSON value, or a Buffer of the
  request's bytes.\<close>

datatype json =
    JNull
  | JBool bool
  | JNumber rat
  | JString string
  | JArray "json list"
  | JObject "(string \<times> json) list"

datatype req_body = Body_undefined | Body_parsed json | Body_buffer string

text \<open>
  \<open>clock env k\<close> is what the \<open>k\<close>-th evaluation of \<open>new Date().toISOString()\<close> returns
  (\<open>ticks\<close> counts the evaluations made so far). \<open>ALERT_EMAIL\<close> is the environment
  variable. \<open>gmail_send\<close> is \<open>gmail.users.messages.send\<close> applied to the \<open>raw\<close> message,
  \<open>table_create\<close> is \<open>table.create\<close> applied to the one row, \<open>constructEvent\<close> is
  \<open>stripe.webhooks.constructEvent\<close> with the configured secret, and \<open>JSON_parse\<close> is the
  parser the JSON middleware applies to a request's bytes.
\<close>

record env =
  clock :: "nat \<Rightarrow> string"
  ALERT_EMAIL :: "string js"
  gmail_send :: "string \<Rightarrow> js_error + unit"
  table_create :: "airtable_fields \<Rightarrow> js_error + airtable_record list"
  constructEvent :: "req_body \<Rightarrow> string js \<Rightarrow> js_error + event"
  JSON_parse :: "string \<Rightarrow> js_error + json"

definition initial_world :: world where
  "initial_world = \<lparr>logs = [], console = [], ticks = 0, trace = []\<rparr>"

definition record_call :: "call \<Rightarrow> world \<Rightarrow> world" where
  "record_call c w = w\<lparr>trace := trace w @ [c]\<rparr>"

subsection \<open>Audit log (lines 33-40, 209-211)\<close>

definition addLog :: "env \<Rightarrow> string \<Rightarrow> world \<Rightarrow> world" where
  "addLog env msg w =
     (let ts = clock env (ticks w);
          pushed = logs w @ [\<lparr>timestamp = ts, message = msg\<rparr>]
      in w\<lparr>logs := (if length pushed > 50 then js_slice_neg 50 pushed else pushed),
            console := console w @ [''['' @ ts @ ''] '' @ msg],
            ticks := Suc (ticks w)\<rparr>)"

text \<open>A run of appends, and the entries such a run creates, in insertion order.\<close>

fun appends :: "env \<Rightarrow> string list \<Rightarrow> world \<Rightarrow> world" where
  "appends env [] w = w"
| "appends env (m # ms) w = appends env ms (addLog env m w)"

fun entries_from :: "env \<Rightarrow> nat \<Rightarrow> string list \<Rightarrow> log_entry list" where
  "entries_from env k [] = []"
| "entries_from env k (m # ms) =
     \<lparr>timestamp = clock env k, message = m\<rparr> # entries_from env (Suc k) ms"

subsection \<open>Alert dispatcher (lines 43-84)\<close>

text \<open>The subject starts with U+1F6A8, four bytes in UTF-8, and a space.\<close>

definition alert_subject :: "payment_data \<Rightarrow> string" where
  "alert_subject pd =
     [CHR 0xF0, CHR 0x9F, CHR 0x9A, CHR 0xA8] @ '' Payment Failed Alert - '' @
     js_String (customer_email pd)"

text \<open>The template literal of lines 46-58; \<open>amt\<close> and \<open>cur\<close> stand for the two computed
  interpolations of line 52.\<close>

definition body_text :: "payment_data \<Rightarrow> string \<Rightarrow> string \<Rightarrow> string" where
  "body_text pd amt cur =
     ''\<newline>Payment Failure Detected!\<newline>\<newline>Details:\<newline>'' @
     ''- Payment ID: '' @ js_String (payment_id pd) @ ''\<newline>'' @
     ''- Customer: '' @ js_String (customer_email pd) @ ''\<newline>'' @
     ''- Amount: $'' @ amt @ '' '' @ cur @ ''\<newline>'' @
     ''- Failure Code: '' @ js_String (failure_code pd) @ ''\<newline>'' @
     ''- Failure Message: '' @ js_String (failure_message pd) @ ''\<newline>'' @
     ''- Date: '' @ js_String (failed_at pd) @ ''\<newline>'' @
     ''\<newline>Please review and take appropriate action.\<newline>    ''"

definition alert_body :: "payment_data \<Rightarrow> js_error + string" where
  "alert_body pd =
     (case js_toUpperCase (currency pd) of
        Inl e \<Rightarrow> Inl e
      | Inr cur \<Rightarrow> Inr (body_text pd (js_toFixed2 (js_div100 (amount pd))) cur))"

definition alert_message :: "env \<Rightarrow> string \<Rightarrow> string \<Rightarrow> string" where
  "alert_message env subject body =
     join_lines
       [''Content-Type: text/plain; charset=\"UTF-8\"'',
        ''MIME-Version: 1.0'',
        ''To: '' @ js_String (js_or (ALERT_EMAIL env) (Val ''admin@example.com'')),
        ''Subject: '' @ subject,
        [],
        body]"

text \<open>The \<open>try\<close> block, then the function with its \<open>catch\<close>.\<close>

definition sendGmailAlert_try :: "env \<Rightarrow> payment_data \<Rightarrow> world \<Rightarrow> (js_error + unit) \<times> world" where
  "sendGmailAlert_try env pd w =
     (let subject = alert_subject pd in
      case alert_body pd of
        Inl e \<Rightarrow> (Inl e, w)
      | Inr body \<Rightarrow>
          (let encodedMessage = encode_raw (alert_message env subject body);
               w1 = record_call (Call_gmail_send encodedMessage) w
           in case gmail_send env encodedMessage of
                Inl e \<Rightarrow> (Inl e, w1)
              | Inr u \<Rightarrow>
                  (Inr (),
                   addLog env (''Gmail alert sent for payment '' @ js_String (payment_id pd)) w1)))"

definition sendGmailAlert :: "env \<Rightarrow> payment_data \<Rightarrow> world \<Rightarrow> (js_error + unit) \<times> world" where
  "sendGmailAlert env pd w =
     (case sendGmailAlert_try env pd (record_call (Enter_sendGmailAlert pd) w) of
        (Inl error, w') \<Rightarrow>
          (Inr (), addLog env (''Error sending Gmail alert: '' @ error_message error) w')
      | (Inr u, w') \<Rightarrow> (Inr (), w'))"

subsection \<open>Tracking recorder (lines 87-111)\<close>

text \<open>The \<open>fields\<close> object of lines 92-102, given the upper-cased currency and the
  current time.\<close>

definition airtable_row :: "string \<Rightarrow> string \<Rightarrow> payment_data \<Rightarrow> airtable_fields" where
  "airtable_row cur now pd =
     \<lparr>Payment_ID = payment_id pd,
      Customer_Email = js_or (customer_email pd) (Val ''Unknown''),
      Amount = js_div100 (amount pd),
      Currency = cur,
      Failure_Code = js_or (failure_code pd) (Val ''Unknown''),
      Failure_Message = js_or (failure_message pd) (Val ''Unknown''),
      Failed_At = failed_at pd,
      Status = ''New'',
      Created_At = now\<rparr>"

definition addToAirtable_try ::
  "env \<Rightarrow> payment_data \<Rightarrow> world \<Rightarrow> (js_error + airtable_record) \<times> world" where
  "addToAirtable_try env pd w =
     (case js_toUpperCase (currency pd) of
        Inl e \<Rightarrow> (Inl e, w)
      | Inr cur \<Rightarrow>
          (let fields = airtable_row cur (clock env (ticks w)) pd;
               w1 = record_call (Call_table_create fields) (w\<lparr>ticks := Suc (ticks w)\<rparr>)
           in case table_create env fields of
                Inl e \<Rightarrow> (Inl e, w1)
              | Inr [] \<Rightarrow>
                  (Inl (JsError ''TypeError'' ''Cannot read properties of undefined (reading 'id')''),
                   w1)
              | Inr (r # rs) \<Rightarrow> (Inr r, addLog env (''Added to Airtable: '' @ rec_id r) w1)))"

definition addToAirtable ::
  "env \<Rightarrow> payment_data \<Rightarrow> world \<Rightarrow> (js_error + airtable_record) \<times> world" where
  "addToAirtable env pd w =
     (case addToAirtable_try env pd (record_call (Enter_addToAirtable pd) w) of
        (Inl error, w') \<Rightarrow>
          (Inl error, addLog env (''Error adding to Airtable: '' @ error_message error) w')
      | (Inr r, w') \<Rightarrow> (Inr r, w'))"

subsection \<open>The pipeline (lines 114-160)\<close>

definition processFailedPayment_try :: "env \<Rightarrow> event \<Rightarrow> world \<Rightarrow> (js_error + unit) \<times> world" where
  "processFailedPayment_try env ev w =
     (case normalize ev of
        Inl e \<Rightarrow> (Inl e, w)
      | Inr paymentData \<Rightarrow>
          (case sendGmailAlert env paymentData w of
             (Inl e, w1) \<Rightarrow> (Inl e, w1)
           | (Inr u, w1) \<Rightarrow>
               (case addToAirtable env paymentData w1 of
                  (Inl e, w2) \<Rightarrow> (Inl e, w2)
                | (Inr r, w2) \<Rightarrow>
                    (Inr (),
                     addLog env
                       (''Successfully processed failed payment: '' @
                        js_String (payment_id paymentData)) w2))))"

definition processFailedPayment :: "env \<Rightarrow> event \<Rightarrow> world \<Rightarrow> (js_error + unit) \<times> world" where
  "processFailedPayment env ev w =
     (case processFailedPayment_try env ev (record_call (Enter_processFailedPayment ev) w) of
        (Inl error, w') \<Rightarrow>
          (Inl error, addLog env (''Error processing failed payment: '' @ error_message error) w')
      | (Inr u, w') \<Rightarrow> (Inr (), w'))"

subsection \<open>Routes (lines 163-185, 209-211)\<close>

datatype payload =
    Send string
  | Json_received bool
  | Json_logs "log_entry list"

record response =
  status :: nat
  sent :: payload

record request =
  stripe_signature :: "string js"
  body :: req_body

definition webhook_stripe :: "env \<Rightarrow> request \<Rightarrow> world \<Rightarrow> response \<times> world" where
  "webhook_stripe env req w =
     (case constructEvent env (body req) (stripe_signature req) of
        Inl err \<Rightarrow>
          (\<lparr>status = 400, sent = Send (''Webhook Error: '' @ error_message err)\<rparr>,
           addLog env (''Webhook signature verification failed: '' @ error_message err) w)
      | Inr ev \<Rightarrow>
          if ev_type ev \<in> set recognized_types then
            (case processFailedPayment env ev w of
               (Inl error, w1) \<Rightarrow>
                 (\<lparr>status = 500, sent = Send ''Internal Server Error''\<rparr>,
                  addLog env (''Error processing webhook: '' @ error_message error) w1)
             | (Inr u, w1) \<Rightarrow>
                 (\<lparr>status = 200, sent = Json_received True\<rparr>,
                  addLog env (''Webhook processed: '' @ ev_type ev) w1))
          else (\<lparr>status = 200, sent = Json_received True\<rparr>, w))"

definition get_logs :: "world \<Rightarrow> response \<times> world" where
  "get_logs w = (\<lparr>status = 200, sent = Json_logs (js_slice_neg 20 (logs w))\<rparr>, w)"


subsection \<open>The body parsers in front of the routes (lines 29-30)\<close>

text \<open>
  \<open>app.use(express.json())\<close> is registered first, \<open>app.use(express.raw({ type:
  'application/json' }))\<close> second, and every request passes them in that order. The two
  parsers are Express's (the \<open>body-parser\<close> package), not part of the repository; they
  are modelled from their documented behaviour. Each one returns at once when an earlier
  parser has already read the body (\<open>req._body\<close>), and reads the body only if the
  request has one and its content type matches the parser's type; both parsers here
  match \<open>application/json\<close>. A parser that reads the body sets \<open>req._body\<close>. A body the
  JSON parser cannot parse ends the request with the parser's error. \<open>Body_undefined\<close>
  stands for a body no parser has read (\<open>undefined\<close>, or the empty object that older
  versions of the parsers put there). Size limits are left out.
\<close>

record express_req =
  stripe_signature_header :: "string js"
  hasBody :: bool
  is_application_json :: bool
  bytes :: string
  parsed_flag :: bool
  current_body :: req_body

definition incoming :: "string js \<Rightarrow> bool \<Rightarrow> bool \<Rightarrow> string \<Rightarrow> express_req" where
  "incoming sig has_body is_json bs =
     \<lparr>stripe_signature_header = sig, hasBody = has_body, is_application_json = is_json,
      bytes = bs, parsed_flag = False, current_body = Body_undefined\<rparr>"

definition express_json :: "env \<Rightarrow> express_req \<Rightarrow> js_error + express_req" where
  "express_json env r =
     (if parsed_flag r then Inr r
      else
        if \<not> hasBody r then Inr r
        else if \<not> is_application_json r then Inr r
        else
          (case JSON_parse env (bytes r) of
             Inl e \<Rightarrow> Inl e
           | Inr j \<Rightarrow> Inr (r\<lparr>parsed_flag := True, current_body := Body_parsed j\<rparr>)))"

definition express_raw :: "express_req \<Rightarrow> js_error + express_req" where
  "express_raw r =
     (if parsed_flag r then Inr r
      else
        if \<not> hasBody r then Inr r
        else if \<not> is_application_json r then Inr r
        else Inr (r\<lparr>parsed_flag := True, current_body := Body_buffer (bytes r)\<rparr>))"

text \<open>The request as the route handler of \<open>POST /webhook/stripe\<close> receives it.\<close>

definition middleware :: "env \<Rightarrow> express_req \<Rightarrow> js_error + request" where
  "middleware env r =
     (case express_json env r of
        Inl e \<Rightarrow> Inl e
      | Inr r1 \<Rightarrow>
          (case express_raw r1 of
             Inl e \<Rightarrow> Inl e
           | Inr r2 \<Rightarrow>
               Inr \<lparr>stripe_signature = stripe_signature_header r2, body = current_body r2\<rparr>))"

definition post_webhook_stripe :: "env \<Rightarrow> express_req \<Rightarrow> world \<Rightarrow> response \<times> world" where
  "post_webhook_stripe env r w =
     (case middleware env r of
        Inl e \<Rightarrow> (\<lparr>status = 400, sent = Send (error_message e)\<rparr>, w)
      | Inr req \<Rightarrow> webhook_stripe env req w)"

subsection \<open>Concrete inputs\<close>

text \<open>
  A \<open>charge.failed\<close> event of 25.00 USD without a receipt address, a collaborator
  environment in which both sinks succeed and the signature check accepts the raw bytes
  with the signature \<open>good\<close> (and, as the provider's library does, rejects a payload that
  is not a string or Buffer), and variants of it.
\<close>

definition demo_object :: stripe_object where
  "demo_object =
     \<lparr>obj_id = Val ''ch_1'', receipt_email = Null, obj_customer_email = Undefined,
      obj_amount = Val 2500, amount_due = Undefined, obj_currency = Val ''usd'',
      last_payment_error = Undefined,
      billing_details = Val \<lparr>bd_email = Val ''a@b.com''\<rparr>,
      obj_failure_code = Val ''card_declined'',
      obj_failure_message = Val ''Your card was declined.''\<rparr>"

definition demo_event :: event where
  "demo_event = \<lparr>ev_type = ''charge.failed'', created = Val 1756505351, data_object = demo_object\<rparr>"

definition demo_payment :: payment_data where
  "demo_payment =
     \<lparr>payment_id = Val ''ch_1'', customer_email = Val ''a@b.com'', amount = Val 2500,
      currency = Val ''usd'', failure_code = Val ''card_declined'',
      failure_message = Val ''Your card was declined.'',
      failed_at = Val ''2025-08-29T22:09:11.000Z''\<rparr>"

definition demo_intent_event :: event where
  "demo_intent_event =
     \<lparr>ev_type = ''payment_intent.payment_failed'', created = Val 1756505351,
      data_object =
        demo_object\<lparr>obj_id := Val ''pi_1'', receipt_email := Val ''c@d.com'',
          last_payment_error := Null, billing_details := Undefined,
          obj_failure_code := Undefined, obj_failure_message := Undefined\<rparr>\<rparr>"

definition demo_intent_payment :: payment_data where
  "demo_intent_payment =
     \<lparr>payment_id = Val ''pi_1'', customer_email = Val ''c@d.com'', amount = Val 2500,
      currency = Val ''usd'', failure_code = Undefined, failure_message = Undefined,
      failed_at = Val ''2025-08-29T22:09:11.000Z''\<rparr>"

text \<open>Events whose address properties hold the empty string.\<close>

definition charge_empty_receipt :: event where
  "charge_empty_receipt =
     demo_event\<lparr>data_object := demo_object\<lparr>receipt_email := Val []\<rparr>\<rparr>"

definition charge_empty_billing :: event where
  "charge_empty_billing =
     demo_event\<lparr>data_object :=
       demo_object\<lparr>receipt_email := Val ''r@x.com'',
         billing_details := Val \<lparr>bd_email = Val []\<rparr>\<rparr>\<rparr>"

definition intent_empty_receipt :: event where
  "intent_empty_receipt =
     demo_intent_event\<lparr>data_object :=
       data_object demo_intent_event\<lparr>receipt_email := Val []\<rparr>\<rparr>"

definition demo_bytes :: string where
  "demo_bytes = ''{\"type\":\"charge.failed\"}''"

definition demo_verifier :: "req_body \<Rightarrow> string js \<Rightarrow> js_error + event" where
  "demo_verifier b sig =
     (case b of
        Body_buffer bs \<Rightarrow>
          if bs = demo_bytes \<and> sig = Val ''good'' then Inr demo_event
          else Inl (JsError ''StripeSignatureVerificationError''
                 ''No signatures found matching the expected signature for payload.'')
      | _ \<Rightarrow>
          Inl (JsError ''StripeSignatureVerificationError''
            ''Webhook payload must be provided as a string or a Buffer instance.''))"

definition demo_env :: env where
  "demo_env =
     \<lparr>clock = (\<lambda>k. iso_string (1756505352000 + int k)),
      ALERT_EMAIL = Undefined,
      gmail_send = (\<lambda>m. Inr ()),
      table_create = (\<lambda>f. Inr [\<lparr>rec_id = ''rec1''\<rparr>]),
      constructEvent = demo_verifier,
      JSON_parse = (\<lambda>bs. if bs = demo_bytes
                          then Inr (JObject [(''type'', JString ''charge.failed'')])
                          else Inl (JsError ''SyntaxError'' ''Unexpected token''))\<rparr>"

definition demo_request :: request where
  "demo_request = \<lparr>stripe_signature = Val ''good'', body = Body_buffer demo_bytes\<rparr>"

definition boom :: js_error where
  "boom = JsError ''Error'' ''boom''"

definition failing_store_env :: env where
  "failing_store_env = demo_env\<lparr>table_create := (\<lambda>f. Inl boom)\<rparr>"

definition failing_gmail_env :: env where
  "failing_gmail_env = demo_env\<lparr>gmail_send := (\<lambda>m. Inl boom)\<rparr>"

definition demo_incoming :: express_req where
  "demo_incoming = incoming (Val ''good'') True True demo_bytes"

section \<open>Properties\<close>

subsection \<open>Audit log\<close>

lemma length_js_slice_neg: "length (js_slice_neg n xs) = min n (length xs)"
  by (simp add: js_slice_neg_def)

lemma js_slice_neg_short: "length xs \<le> n \<Longrightarrow> js_slice_neg n xs = xs"
  by (simp add: js_slice_neg_def)

lemma js_slice_neg_drop: "js_slice_neg n xs = drop (length xs - n) xs"
proof -
  have "nat (max (int (length xs) - int n) 0) = length xs - n" by linarith
  then show ?thesis by (simp add: js_slice_neg_def)
qed

lemma js_slice_neg_append:
  "js_slice_neg n (js_slice_neg n xs @ ys) = js_slice_neg n (xs @ ys)"
proof (cases "length xs \<le> n")
  case True
  then show ?thesis by (simp add: js_slice_neg_short)
next
  case False
  define k where "k = length xs - n"
  have len: "length xs = k + n" using False by (simp add: k_def)
  have app: "drop k xs @ ys = drop k (xs @ ys)" by (simp add: len)
  have "js_slice_neg n (js_slice_neg n xs @ ys) = drop (length ys) (drop k (xs @ ys))"
    unfolding js_slice_neg_drop [of n xs] k_def [symmetric] app
    by (simp only: js_slice_neg_drop length_drop length_append len) simp
  also have "\<dots> = drop (k + length ys) (xs @ ys)"
    by (simp only: drop_drop add.commute)
  also have "\<dots> = js_slice_neg n (xs @ ys)"
    by (simp only: js_slice_neg_drop length_append len) simp
  finally show ?thesis .
qed

lemma logs_addLog:
  "logs (addLog env m w) =
     js_slice_neg 50 (logs w @ [\<lparr>timestamp = clock env (ticks w), message = m\<rparr>])"
  by (simp add: addLog_def Let_def js_slice_neg_short)

lemma ticks_addLog: "ticks (addLog env m w) = Suc (ticks w)"
  by (simp add: addLog_def Let_def)

lemma trace_addLog: "trace (addLog env m w) = trace w"
  by (simp add: addLog_def Let_def)

lemma logs_appends:
  "logs (appends env ms w) =
     (if ms = [] then logs w else js_slice_neg 50 (logs w @ entries_from env (ticks w) ms))"
proof (induction ms arbitrary: w)
  case Nil
  show ?case by simp
next
  case (Cons m ms)
  show ?case
    using js_slice_neg_append [of 50 "logs w @ [\<lparr>timestamp = clock env (ticks w), message = m\<rparr>]"
        "entries_from env (Suc (ticks w)) ms"]
    by (simp add: Cons.IH logs_addLog ticks_addLog length_js_slice_neg js_slice_neg_short)
qed

lemma length_entries_from: "length (entries_from env k ms) = length ms"
  by (induction ms arbitrary: k) simp_all

lemma logs_appends_initial:
  "logs (appends env ms initial_world) = js_slice_neg 50 (entries_from env 0 ms)"
proof (cases ms)
  case Nil
  then show ?thesis by (simp add: initial_world_def js_slice_neg_short)
next
  case (Cons m ms')
  then show ?thesis by (simp only: logs_appends) (simp add: initial_world_def)
qed

text \<open>
  C6. One append leaves at most 50 entries in the log, whatever the log held before.
  Starting from the empty log, after the appends \<open>ms\<close> the log holds the last 50 of the
  entries created, in insertion order (all of them when there are fewer). After 55 appends, \<open>GET /logs\<close> answers with
  entries 36 to 55 (the list without its first 35) and returns the world as it was;
  taking the snapshot never changes the world.
\<close>

theorem audit_log_bounded:
  "length (logs (addLog env m w)) \<le> 50 \<and>
   logs (appends env ms initial_world) = js_slice_neg 50 (entries_from env 0 ms) \<and>
   logs (appends env ms initial_world) = drop (length ms - 50) (entries_from env 0 ms) \<and>
   length (logs (appends env ms initial_world)) \<le> 50 \<and>
   (length ms = 55 \<longrightarrow>
      get_logs (appends env ms initial_world) =
        (\<lparr>status = 200, sent = Json_logs (drop 35 (entries_from env 0 ms))\<rparr>,
         appends env ms initial_world)) \<and>
   snd (get_logs w) = w"
proof (intro conjI impI)
  show "length (logs (addLog env m w)) \<le> 50"
    by (simp add: logs_addLog length_js_slice_neg)
  show "logs (appends env ms initial_world) = js_slice_neg 50 (entries_from env 0 ms)"
    by (rule logs_appends_initial)
  show "logs (appends env ms initial_world) = drop (length ms - 50) (entries_from env 0 ms)"
    by (simp add: logs_appends_initial js_slice_neg_drop length_entries_from)
  show "length (logs (appends env ms initial_world)) \<le> 50"
    by (simp add: logs_appends_initial length_js_slice_neg)
  show "snd (get_logs w) = w"
    by (simp add: get_logs_def)
next
  assume n: "length ms = 55"
  have "js_slice_neg 20 (js_slice_neg 50 (entries_from env 0 ms)) = drop 35 (entries_from env 0 ms)"
    by (simp add: js_slice_neg_drop length_entries_from n)
  then show "get_logs (appends env ms initial_world) =
        (\<lparr>status = 200, sent = Json_logs (drop 35 (entries_from env 0 ms))\<rparr>,
         appends env ms initial_world)"
    by (simp add: get_logs_def logs_appends_initial)
qed

theorem audit_log_bounded_witness:
  "length (replicate 55 ''started'') = 55 \<and>
   get_logs (appends demo_env (replicate 55 ''started'') initial_world) =
     (\<lparr>status = 200,
       sent = Json_logs (drop 35 (entries_from demo_env 0 (replicate 55 ''started'')))\<rparr>,
      appends demo_env (replicate 55 ''started'') initial_world)"
  using audit_log_bounded [of demo_env "''x''" initial_world "replicate 55 ''started''"]
  by simp

subsection \<open>Rendering amounts\<close>

lemma digit_0: "digit 0 = CHR ''0''" by (simp add: digit_def)

lemma pad2_digits: "k < 100 \<Longrightarrow> pad 2 k = [digit (k div 10), digit (k mod 10)]"
proof (cases "k < 10")
  case True
  then show ?thesis by (simp add: pad_def digit_0)
next
  case False
  assume "k < 100"
  then have "k div 10 < 10" by simp
  then show ?thesis using False by (simp add: pad_def)
qed

lemma toFixed2_cents: "js_toFixed2 (js_div100 (Val a)) = cents_string a"
proof -
  have abs: "\<bar>(of_int a :: rat) / 100\<bar> * 100 + 1 / 2 = of_int \<bar>a\<bar> + 1 / 2" by simp
  have fl: "\<lfloor>(of_int \<bar>a\<bar> :: rat) + 1 / 2\<rfloor> = \<bar>a\<bar>" by (rule floor_unique) simp_all
  have neg: "((of_int a :: rat) / 100 < 0) = (a < 0)" by simp
  have m: "nat \<bar>a\<bar> mod 10 = nat \<bar>a\<bar> mod 100 mod 10" by (simp add: mod_mod_cancel)
  show ?thesis
    unfolding js_div100.simps js_toFixed2.simps abs fl neg Let_def cents_string_def
    by (subst m) (simp add: pad2_digits)
qed

subsection \<open>What the sinks do to the world\<close>

lemma ticks_record_call: "ticks (record_call c w) = ticks w"
  by (simp add: record_call_def)

lemma trace_record_call: "trace (record_call c w) = trace w @ [c]"
  by (simp add: record_call_def)

lemma logs_record_call: "logs (record_call c w) = logs w"
  by (simp add: record_call_def)

lemma sendGmailAlert_returns: "fst (sendGmailAlert env pd w) = Inr ()"
  by (simp add: sendGmailAlert_def split: prod.split sum.split)

lemma sendGmailAlert_trace:
  "trace (snd (sendGmailAlert env pd w)) =
     trace w @ Enter_sendGmailAlert pd #
       (case alert_body pd of
          Inl e \<Rightarrow> []
        | Inr b \<Rightarrow> [Call_gmail_send (encode_raw (alert_message env (alert_subject pd) b))])"
  by (simp add: sendGmailAlert_def sendGmailAlert_try_def Let_def trace_addLog trace_record_call
      split: sum.split)

lemma sendGmailAlert_ticks: "ticks (snd (sendGmailAlert env pd w)) = Suc (ticks w)"
  by (simp add: sendGmailAlert_def sendGmailAlert_try_def Let_def ticks_addLog ticks_record_call
      split: sum.split)

lemma addToAirtable_trace:
  "trace (snd (addToAirtable env pd w)) =
     trace w @ Enter_addToAirtable pd #
       (case js_toUpperCase (currency pd) of
          Inl e \<Rightarrow> []
        | Inr cur \<Rightarrow> [Call_table_create (airtable_row cur (clock env (ticks w)) pd)])"
  by (simp add: addToAirtable_def addToAirtable_try_def Let_def trace_addLog trace_record_call
      ticks_record_call split: sum.split list.split)

subsection \<open>Amounts stay in minor units until a sink presents them\<close>

lemma normalize_amount:
  "ev_type ev \<in> set recognized_types \<Longrightarrow> normalize ev = Inr pd \<Longrightarrow>
   amount pd = (if ev_type ev = ''invoice.payment_failed'' then amount_due (data_object ev)
                else obj_amount (data_object ev))"
  by (auto simp add: normalize_def recognized_types_def Let_def split: sum.splits)

text \<open>
  C1. For a recognized event that normalizes to \<open>pd\<close>, the record's \<open>amount\<close> is the
  source property itself (\<open>amount_due\<close> for an invoice, \<open>amount\<close> otherwise). When it is
  an integer \<open>a\<close> in range and the currency is a string, the conversion happens in the
  sinks only: the Dispatcher's body, given in full, has the line \<open>- Amount: $\<close> with
  \<open>a / 100\<close> in two decimals and the currency in upper case, and that body is what is
  sent; the Recorder is called with a row whose \<open>Amount\<close> is the number \<open>a / 100\<close>,
  which has the same two-decimal rendering.
\<close>

theorem amount_minor_units_until_presentation:
  assumes "ev_type ev \<in> set recognized_types" and "normalize ev = Inr pd"
  shows "amount pd = (if ev_type ev = ''invoice.payment_failed'' then amount_due (data_object ev)
                      else obj_amount (data_object ev)) \<and>
         (\<forall>a c. amount pd = Val a \<and> amount_in_range a \<and> currency pd = Val c \<longrightarrow>
            alert_body pd = Inr (body_text pd (cents_string a) (map upper_char c)) \<and>
            alert_body pd =
              Inr (''\<newline>Payment Failure Detected!\<newline>\<newline>Details:\<newline>'' @
                   ''- Payment ID: '' @ js_String (payment_id pd) @ ''\<newline>'' @
                   ''- Customer: '' @ js_String (customer_email pd) @ ''\<newline>'' @
                   ''- Amount: $'' @ cents_string a @ '' '' @ map upper_char c @ ''\<newline>'' @
                   ''- Failure Code: '' @ js_String (failure_code pd) @ ''\<newline>'' @
                   ''- Failure Message: '' @ js_String (failure_message pd) @ ''\<newline>'' @
                   ''- Date: '' @ js_String (failed_at pd) @ ''\<newline>'' @
                   ''\<newline>Please review and take appropriate action.\<newline>    '') \<and>
            trace (snd (sendGmailAlert env pd w)) =
              trace w @
              [Enter_sendGmailAlert pd,
               Call_gmail_send
                 (encode_raw
                    (alert_message env (alert_subject pd)
                       (body_text pd (cents_string a) (map upper_char c))))] \<and>
            trace (snd (sendGmailAlert env pd w)) =
              trace w @
              [Enter_sendGmailAlert pd,
               Call_gmail_send
                 (encode_raw
                    (join_lines
                       [''Content-Type: text/plain; charset=\"UTF-8\"'',
                        ''MIME-Version: 1.0'',
                        ''To: '' @ js_String (js_or (ALERT_EMAIL env) (Val ''admin@example.com'')),
                        ''Subject: '' @ alert_subject pd,
                        [],
                        ''\<newline>Payment Failure Detected!\<newline>\<newline>Details:\<newline>'' @
                        ''- Payment ID: '' @ js_String (payment_id pd) @ ''\<newline>'' @
                        ''- Customer: '' @ js_String (customer_email pd) @ ''\<newline>'' @
                        ''- Amount: $'' @ cents_string a @ '' '' @ map upper_char c @
                        ''\<newline>'' @
                        ''- Failure Code: '' @ js_String (failure_code pd) @ ''\<newline>'' @
                        ''- Failure Message: '' @ js_String (failure_message pd) @ ''\<newline>'' @
                        ''- Date: '' @ js_String (failed_at pd) @ ''\<newline>'' @
                        ''\<newline>Please review and take appropriate action.\<newline>    '']))] \<and>
            trace (snd (addToAirtable env pd w)) =
              trace w @
              [Enter_addToAirtable pd,
               Call_table_create (airtable_row (map upper_char c) (clock env (ticks w)) pd)] \<and>
            Amount (airtable_row (map upper_char c) (clock env (ticks w)) pd) = Num (of_int a / 100) \<and>
            js_toFixed2 (Amount (airtable_row (map upper_char c) (clock env (ticks w)) pd)) =
              cents_string a)"
proof (intro conjI allI impI)
  show "amount pd = (if ev_type ev = ''invoice.payment_failed'' then amount_due (data_object ev)
                      else obj_amount (data_object ev))"
    using assms by (rule normalize_amount)
next
  fix a c
  assume h: "amount pd = Val a \<and> amount_in_range a \<and> currency pd = Val c"
  then have am: "amount pd = Val a" and cu: "currency pd = Val c" by simp_all
  show b: "alert_body pd = Inr (body_text pd (cents_string a) (map upper_char c))"
    unfolding alert_body_def am cu toFixed2_cents by simp
  show "alert_body pd =
              Inr (''\<newline>Payment Failure Detected!\<newline>\<newline>Details:\<newline>'' @
                   ''- Payment ID: '' @ js_String (payment_id pd) @ ''\<newline>'' @
                   ''- Customer: '' @ js_String (customer_email pd) @ ''\<newline>'' @
                   ''- Amount: $'' @ cents_string a @ '' '' @ map upper_char c @ ''\<newline>'' @
                   ''- Failure Code: '' @ js_String (failure_code pd) @ ''\<newline>'' @
                   ''- Failure Message: '' @ js_String (failure_message pd) @ ''\<newline>'' @
                   ''- Date: '' @ js_String (failed_at pd) @ ''\<newline>'' @
                   ''\<newline>Please review and take appropriate action.\<newline>    '')"
    by (simp add: b body_text_def)
  show t: "trace (snd (sendGmailAlert env pd w)) =
              trace w @
              [Enter_sendGmailAlert pd,
               Call_gmail_send
                 (encode_raw
                    (alert_message env (alert_subject pd)
                       (body_text pd (cents_string a) (map upper_char c))))]"
    by (simp add: sendGmailAlert_trace b)
  show "trace (snd (sendGmailAlert env pd w)) =
              trace w @
              [Enter_sendGmailAlert pd,
               Call_gmail_send
                 (encode_raw
                    (join_lines
                       [''Content-Type: text/plain; charset=\"UTF-8\"'',
                        ''MIME-Version: 1.0'',
                        ''To: '' @ js_String (js_or (ALERT_EMAIL env) (Val ''admin@example.com'')),
                        ''Subject: '' @ alert_subject pd,
                        [],
                        ''\<newline>Payment Failure Detected!\<newline>\<newline>Details:\<newline>'' @
                        ''- Payment ID: '' @ js_String (payment_id pd) @ ''\<newline>'' @
                        ''- Customer: '' @ js_String (customer_email pd) @ ''\<newline>'' @
                        ''- Amount: $'' @ cents_string a @ '' '' @ map upper_char c @
                        ''\<newline>'' @
                        ''- Failure Code: '' @ js_String (failure_code pd) @ ''\<newline>'' @
                        ''- Failure Message: '' @ js_String (failure_message pd) @ ''\<newline>'' @
                        ''- Date: '' @ js_String (failed_at pd) @ ''\<newline>'' @
                        ''\<newline>Please review and take appropriate action.\<newline>    '']))]"
    unfolding t alert_message_def body_text_def by (simp del: join_lines.simps)
  show "trace (snd (addToAirtable env pd w)) =
              trace w @
              [Enter_addToAirtable pd,
               Call_table_create (airtable_row (map upper_char c) (clock env (ticks w)) pd)]"
    using h by (simp add: addToAirtable_trace)
  show "Amount (airtable_row (map upper_char c) (clock env (ticks w)) pd) = Num (of_int a / 100)"
    using h by (simp add: airtable_row_def)
  show "js_toFixed2 (Amount (airtable_row (map upper_char c) (clock env (ticks w)) pd)) =
              cents_string a"
  proof -
    have "Amount (airtable_row (map upper_char c) (clock env (ticks w)) pd) = js_div100 (Val a)"
      by (simp add: airtable_row_def am del: js_div100.simps)
    then show ?thesis by (simp only: toFixed2_cents)
  qed
qed

lemma normalize_demo_event: "normalize demo_event = Inr demo_payment"
  by code_simp

lemma cents_2500: "cents_string 2500 = ''25.00''"
  by code_simp

lemma upper_usd: "map upper_char ''usd'' = ''USD''"
  by code_simp

lemma demo_body:
  "body_text demo_payment ''25.00'' ''USD'' =
     ''\<newline>Payment Failure Detected!\<newline>\<newline>Details:\<newline>- Payment ID: ch_1\<newline>- Customer: a@b.com\<newline>- Amount: $25.00 USD\<newline>- Failure Code: card_declined\<newline>- Failure Message: Your card was declined.\<newline>- Date: 2025-08-29T22:09:11.000Z\<newline>\<newline>Please review and take appropriate action.\<newline>    ''"
  by (simp add: body_text_def demo_payment_def)

theorem amount_minor_units_until_presentation_witness:
  "ev_type demo_event \<in> set recognized_types \<and>
   normalize demo_event = Inr demo_payment \<and>
   amount demo_payment = obj_amount (data_object demo_event) \<and>
   amount demo_payment = Val 2500 \<and> amount_in_range 2500 \<and> currency demo_payment = Val ''usd'' \<and>
   alert_body demo_payment = Inr (body_text demo_payment ''25.00'' ''USD'') \<and>
   alert_body demo_payment =
     Inr ''\<newline>Payment Failure Detected!\<newline>\<newline>Details:\<newline>- Payment ID: ch_1\<newline>- Customer: a@b.com\<newline>- Amount: $25.00 USD\<newline>- Failure Code: card_declined\<newline>- Failure Message: Your card was declined.\<newline>- Date: 2025-08-29T22:09:11.000Z\<newline>\<newline>Please review and take appropriate action.\<newline>    '' \<and>
   trace (snd (addToAirtable demo_env demo_payment initial_world)) =
     [Enter_addToAirtable demo_payment,
      Call_table_create (airtable_row ''USD'' (clock demo_env 0) demo_payment)] \<and>
   Amount (airtable_row ''USD'' (clock demo_env 0) demo_payment) = Num 25"
proof -
  have r: "ev_type demo_event \<in> set recognized_types"
    by (simp add: demo_event_def recognized_types_def)
  have h: "amount demo_payment = Val 2500 \<and> amount_in_range 2500 \<and> currency demo_payment = Val ''usd''"
    by (simp add: demo_payment_def amount_in_range_def)
  have e: "ev_type demo_event \<noteq> ''invoice.payment_failed''"
    by (simp add: demo_event_def)
  have i: "trace initial_world = [] \<and> ticks initial_world = 0"
    by (simp add: initial_world_def)
  have f: "js_String (payment_id demo_payment) = ''ch_1'' \<and>
      js_String (customer_email demo_payment) = ''a@b.com'' \<and>
      js_String (failure_code demo_payment) = ''card_declined'' \<and>
      js_String (failure_message demo_payment) = ''Your card was declined.'' \<and>
      js_String (failed_at demo_payment) = ''2025-08-29T22:09:11.000Z''"
    by (simp add: demo_payment_def)
  show ?thesis
    using amount_minor_units_until_presentation [OF r normalize_demo_event, of demo_env initial_world]
      r normalize_demo_event h e i f cents_2500 upper_usd demo_body
    by simp
qed

subsection \<open>The alert's subject and body\<close>

text \<open>
  C9, as the spec states it, fails: the subject of the alert for \<open>demo_payment\<close> is not
  \<open>Payment Failed Alert - a@b.com\<close>, because line 45 puts U+1F6A8 and a space in front.
\<close>

theorem alert_subject_counterexample:
  "alert_subject demo_payment \<noteq> ''Payment Failed Alert - a@b.com''"
  by (simp add: alert_subject_def demo_payment_def)

text \<open>
  C9, amended. The subject is U+1F6A8 (the bytes F0 9F 9A A8), a space,
  \<open>Payment Failed Alert - \<close> and the record's \<open>customer_email\<close>. When the amount is an
  integer \<open>a\<close> in range and the currency a string \<open>c\<close>, the body holds the line
  \<open>- Amount: $\<close>, \<open>a / 100\<close> with two decimals, a space and \<open>c\<close> in upper case, and the
  message handed to Gmail is built from that subject and body.
\<close>

theorem alert_subject_and_body:
  "alert_subject pd =
     [CHR 0xF0, CHR 0x9F, CHR 0x9A, CHR 0xA8] @ '' Payment Failed Alert - '' @
     js_String (customer_email pd) \<and>
   (\<forall>e. customer_email pd = Val e \<longrightarrow>
      alert_subject pd = [CHR 0xF0, CHR 0x9F, CHR 0x9A, CHR 0xA8] @ '' Payment Failed Alert - '' @ e) \<and>
   (\<forall>a c. amount pd = Val a \<and> amount_in_range a \<and> currency pd = Val c \<longrightarrow>
      (\<exists>before after.
         alert_body pd =
           Inr (before @ ''- Amount: $'' @ cents_string a @ '' '' @ map upper_char c @
                ''\<newline>'' @ after)) \<and>
      alert_body pd = Inr (body_text pd (cents_string a) (map upper_char c)) \<and>
      trace (snd (sendGmailAlert env pd w)) =
        trace w @
        [Enter_sendGmailAlert pd,
         Call_gmail_send
           (encode_raw
              (join_lines
                 [''Content-Type: text/plain; charset=\"UTF-8\"'',
                  ''MIME-Version: 1.0'',
                  ''To: '' @ js_String (js_or (ALERT_EMAIL env) (Val ''admin@example.com'')),
                  ''Subject: '' @ alert_subject pd,
                  [],
                  body_text pd (cents_string a) (map upper_char c)]))])"
proof (intro conjI allI impI)
  show "alert_subject pd =
     [CHR 0xF0, CHR 0x9F, CHR 0x9A, CHR 0xA8] @ '' Payment Failed Alert - '' @
     js_String (customer_email pd)"
    by (simp add: alert_subject_def)
next
  fix e
  assume "customer_email pd = Val e"
  then show "alert_subject pd =
      [CHR 0xF0, CHR 0x9F, CHR 0x9A, CHR 0xA8] @ '' Payment Failed Alert - '' @ e"
    by (simp add: alert_subject_def)
next
  fix a c
  assume h: "amount pd = Val a \<and> amount_in_range a \<and> currency pd = Val c"
  then have am: "amount pd = Val a" and cu: "currency pd = Val c" by simp_all
  show b: "alert_body pd = Inr (body_text pd (cents_string a) (map upper_char c))"
    unfolding alert_body_def am cu toFixed2_cents by simp
  have "body_text pd (cents_string a) (map upper_char c) =
      (''\<newline>Payment Failure Detected!\<newline>\<newline>Details:\<newline>'' @
       ''- Payment ID: '' @ js_String (payment_id pd) @ ''\<newline>'' @
       ''- Customer: '' @ js_String (customer_email pd) @ ''\<newline>'') @
      ''- Amount: $'' @ cents_string a @ '' '' @ map upper_char c @ ''\<newline>'' @
      (''- Failure Code: '' @ js_String (failure_code pd) @ ''\<newline>'' @
       ''- Failure Message: '' @ js_String (failure_message pd) @ ''\<newline>'' @
       ''- Date: '' @ js_String (failed_at pd) @ ''\<newline>'' @
       ''\<newline>Please review and take appropriate action.\<newline>    '')"
    by (simp add: body_text_def)
  then show "\<exists>before after.
         alert_body pd =
           Inr (before @ ''- Amount: $'' @ cents_string a @ '' '' @ map upper_char c @
                ''\<newline>'' @ after)"
    unfolding b by blast
  show "trace (snd (sendGmailAlert env pd w)) =
        trace w @
        [Enter_sendGmailAlert pd,
         Call_gmail_send
           (encode_raw
              (join_lines
                 [''Content-Type: text/plain; charset=\"UTF-8\"'',
                  ''MIME-Version: 1.0'',
                  ''To: '' @ js_String (js_or (ALERT_EMAIL env) (Val ''admin@example.com'')),
                  ''Subject: '' @ alert_subject pd,
                  [],
                  body_text pd (cents_string a) (map upper_char c)]))]"
    by (simp add: sendGmailAlert_trace b alert_message_def del: join_lines.simps)
qed

theorem alert_subject_and_body_witness:
  "customer_email demo_payment = Val ''a@b.com'' \<and>
   amount demo_payment = Val 2500 \<and> amount_in_range 2500 \<and> currency demo_payment = Val ''usd'' \<and>
   alert_subject demo_payment =
     [CHR 0xF0, CHR 0x9F, CHR 0x9A, CHR 0xA8] @ '' Payment Failed Alert - a@b.com'' \<and>
   alert_body demo_payment =
     Inr ''\<newline>Payment Failure Detected!\<newline>\<newline>Details:\<newline>- Payment ID: ch_1\<newline>- Customer: a@b.com\<newline>- Amount: $25.00 USD\<newline>- Failure Code: card_declined\<newline>- Failure Message: Your card was declined.\<newline>- Date: 2025-08-29T22:09:11.000Z\<newline>\<newline>Please review and take appropriate action.\<newline>    ''"
proof -
  have h: "amount demo_payment = Val 2500 \<and> amount_in_range 2500 \<and> currency demo_payment = Val ''usd''"
    by (simp add: demo_payment_def amount_in_range_def)
  have e: "customer_email demo_payment = Val ''a@b.com''"
    by (simp add: demo_payment_def)
  show ?thesis
    using alert_subject_and_body [of demo_payment demo_env initial_world] h e
      cents_2500 upper_usd demo_body
    by simp
qed

subsection \<open>Defaults for missing values\<close>

lemma js_or_falsy: "\<not> truthy a \<Longrightarrow> js_or a b = b"
  by (simp add: js_or_def)

text \<open>The Recorder's row has \<open>Unknown\<close> where the record's failure code, failure message
  or customer address is missing, \<open>null\<close> or empty.\<close>

lemma airtable_row_defaults:
  "(\<not> truthy (failure_code pd) \<longrightarrow> Failure_Code (airtable_row cur now pd) = Val ''Unknown'') \<and>
   (\<not> truthy (failure_message pd) \<longrightarrow> Failure_Message (airtable_row cur now pd) = Val ''Unknown'') \<and>
   (\<not> truthy (customer_email pd) \<longrightarrow> Customer_Email (airtable_row cur now pd) = Val ''Unknown'')"
  by (simp add: airtable_row_def js_or_def)

text \<open>
  C8 holds for the Recorder and fails for the Dispatcher. A \<open>payment_intent.payment_failed\<close>
  event without \<open>last_payment_error\<close> normalizes to a record whose \<open>failure_code\<close> and
  \<open>failure_message\<close> are \<open>undefined\<close>. The Recorder's row has \<open>Unknown\<close> in both columns;
  the Dispatcher's body has the text \<open>undefined\<close> in both lines, since lines 53-54
  interpolate the properties as they are.
\<close>

theorem dispatcher_renders_absent_failure_code:
  "normalize demo_intent_event = Inr demo_intent_payment \<and>
   failure_code demo_intent_payment = Undefined \<and>
   failure_message demo_intent_payment = Undefined \<and>
   Failure_Code (airtable_row ''USD'' (clock demo_env 0) demo_intent_payment) = Val ''Unknown'' \<and>
   Failure_Message (airtable_row ''USD'' (clock demo_env 0) demo_intent_payment) = Val ''Unknown'' \<and>
   alert_body demo_intent_payment =
     Inr ''\<newline>Payment Failure Detected!\<newline>\<newline>Details:\<newline>- Payment ID: pi_1\<newline>- Customer: c@d.com\<newline>- Amount: $25.00 USD\<newline>- Failure Code: undefined\<newline>- Failure Message: undefined\<newline>- Date: 2025-08-29T22:09:11.000Z\<newline>\<newline>Please review and take appropriate action.\<newline>    ''"
proof -
  have n: "normalize demo_intent_event = Inr demo_intent_payment"
    by code_simp
  have b: "alert_body demo_intent_payment =
      Inr (body_text demo_intent_payment (cents_string 2500) (map upper_char ''usd''))"
    unfolding alert_body_def demo_intent_payment_def
    by (simp add: toFixed2_cents del: js_toFixed2.simps js_div100.simps)
  show ?thesis
    unfolding b cents_2500 upper_usd
    by (simp add: n) (simp add: demo_intent_payment_def body_text_def airtable_row_def js_or_def)
qed

text \<open>
  C10, as stated, fails for \<open>charge.failed\<close>: with \<open>receipt_email\<close> empty and a billing
  address present the record's \<open>customer_email\<close> is the billing address, and with the
  billing address empty and \<open>receipt_email\<close> present it is \<open>receipt_email\<close>.
\<close>

theorem empty_email_counterexample:
  "receipt_email (data_object charge_empty_receipt) = Val [] \<and>
   map_sum id customer_email (normalize charge_empty_receipt) = Inr (Val ''a@b.com'') \<and>
   opt_chain (billing_details (data_object charge_empty_billing)) bd_email = Val [] \<and>
   map_sum id customer_email (normalize charge_empty_billing) = Inr (Val ''r@x.com'')"
  by code_simp

text \<open>
  C10, amended. The default applies to every falsy value; the empty string is one. An
  empty \<open>receipt_email\<close> of a payment intent and an empty \<open>customer_email\<close> of an invoice
  give \<open>Unknown\<close>. For a charge an empty \<open>receipt_email\<close> falls through to
  \<open>billing_details.email\<close>, and the record has \<open>Unknown\<close> when that is falsy as well. The
  Recorder puts \<open>Unknown\<close> in its row for a record whose \<open>customer_email\<close> is empty.
\<close>

theorem empty_email_defaults:
  assumes "normalize ev = Inr pd"
  shows "\<not> truthy (Val []) \<and>
    (ev_type ev = ''payment_intent.payment_failed'' \<and> \<not> truthy (receipt_email (data_object ev)) \<longrightarrow>
       customer_email pd = Val ''Unknown'') \<and>
    (ev_type ev = ''invoice.payment_failed'' \<and> \<not> truthy (obj_customer_email (data_object ev)) \<longrightarrow>
       customer_email pd = Val ''Unknown'') \<and>
    (ev_type ev = ''charge.failed'' \<and> \<not> truthy (receipt_email (data_object ev)) \<longrightarrow>
       customer_email pd =
         js_or (opt_chain (billing_details (data_object ev)) bd_email) (Val ''Unknown'')) \<and>
    (ev_type ev = ''charge.failed'' \<and> \<not> truthy (receipt_email (data_object ev)) \<and>
     \<not> truthy (opt_chain (billing_details (data_object ev)) bd_email) \<longrightarrow>
       customer_email pd = Val ''Unknown'') \<and>
    (customer_email (q :: payment_data) = Val [] \<and> currency q = Val c \<longrightarrow>
       Customer_Email (airtable_row (map upper_char c) (clock env (ticks w)) q) = Val ''Unknown'' \<and>
       trace (snd (addToAirtable env q w)) =
         trace w @
         [Enter_addToAirtable q,
          Call_table_create (airtable_row (map upper_char c) (clock env (ticks w)) q)])"
proof (intro conjI impI)
  show "\<not> truthy (Val [])" by simp
next
  assume "ev_type ev = ''payment_intent.payment_failed'' \<and> \<not> truthy (receipt_email (data_object ev))"
  then show "customer_email pd = Val ''Unknown''"
    using assms by (auto simp add: normalize_def Let_def js_or_def split: sum.splits)
next
  assume "ev_type ev = ''invoice.payment_failed'' \<and> \<not> truthy (obj_customer_email (data_object ev))"
  then show "customer_email pd = Val ''Unknown''"
    using assms by (auto simp add: normalize_def Let_def js_or_def split: sum.splits)
next
  assume "ev_type ev = ''charge.failed'' \<and> \<not> truthy (receipt_email (data_object ev))"
  then show "customer_email pd =
         js_or (opt_chain (billing_details (data_object ev)) bd_email) (Val ''Unknown'')"
    using assms by (auto simp add: normalize_def Let_def js_or_falsy split: sum.splits)
next
  assume "ev_type ev = ''charge.failed'' \<and> \<not> truthy (receipt_email (data_object ev)) \<and>
     \<not> truthy (opt_chain (billing_details (data_object ev)) bd_email)"
  then show "customer_email pd = Val ''Unknown''"
    using assms by (auto simp add: normalize_def Let_def js_or_falsy split: sum.splits)
next
  assume h: "customer_email q = Val [] \<and> currency q = Val c"
  show "Customer_Email (airtable_row (map upper_char c) (clock env (ticks w)) q) = Val ''Unknown''"
    using h by (simp add: airtable_row_def js_or_def)
  show "trace (snd (addToAirtable env q w)) =
         trace w @
         [Enter_addToAirtable q,
          Call_table_create (airtable_row (map upper_char c) (clock env (ticks w)) q)]"
    using h by (simp add: addToAirtable_trace)
qed

lemma normalize_intent_empty_receipt:
  "normalize intent_empty_receipt = Inr (demo_intent_payment\<lparr>customer_email := Val ''Unknown''\<rparr>)"
  by code_simp

theorem empty_email_defaults_witness:
  "normalize intent_empty_receipt = Inr (demo_intent_payment\<lparr>customer_email := Val ''Unknown''\<rparr>) \<and>
   ev_type intent_empty_receipt = ''payment_intent.payment_failed'' \<and>
   receipt_email (data_object intent_empty_receipt) = Val [] \<and>
   customer_email (demo_intent_payment\<lparr>customer_email := Val ''Unknown''\<rparr>) = Val ''Unknown'' \<and>
   customer_email (demo_payment\<lparr>customer_email := Val []\<rparr>) = Val [] \<and>
   currency (demo_payment\<lparr>customer_email := Val []\<rparr>) = Val ''usd'' \<and>
   Customer_Email
     (airtable_row ''USD'' (clock demo_env 0) (demo_payment\<lparr>customer_email := Val []\<rparr>)) =
     Val ''Unknown''"
proof -
  have t: "ev_type intent_empty_receipt = ''payment_intent.payment_failed'' \<and>
      receipt_email (data_object intent_empty_receipt) = Val []"
    by (simp add: intent_empty_receipt_def demo_intent_event_def)
  have q: "customer_email (demo_payment\<lparr>customer_email := Val []\<rparr>) = Val [] \<and>
      currency (demo_payment\<lparr>customer_email := Val []\<rparr>) = Val ''usd''"
    by (simp add: demo_payment_def)
  have i: "ticks initial_world = 0"
    by (simp add: initial_world_def)
  show ?thesis
    using empty_email_defaults [OF normalize_intent_empty_receipt,
        of "demo_payment\<lparr>customer_email := Val []\<rparr>" "''usd''" demo_env initial_world]
      normalize_intent_empty_receipt t q i upper_usd
    by simp
qed

subsection \<open>The pipeline and the webhook route\<close>

lemma js_slice_neg_0: "js_slice_neg 0 xs = []"
  by (simp add: js_slice_neg_drop)

lemma js_slice_neg_twice:
  assumes "n \<le> m"
  shows "js_slice_neg n (js_slice_neg m xs) = js_slice_neg n xs"
proof -
  have "length xs - (length xs - m + n) + (length xs - m) = length xs - n"
    using assms by linarith
  then show ?thesis by (simp add: js_slice_neg_drop)
qed

lemma js_slice_neg_snoc: "0 < n \<Longrightarrow> js_slice_neg n (xs @ [x]) = js_slice_neg (n - 1) xs @ [x]"
  by (simp add: js_slice_neg_drop Suc_diff_le)

lemma recent_addLog:
  "0 < n \<Longrightarrow> n \<le> 50 \<Longrightarrow>
   map message (js_slice_neg n (logs (addLog env m w))) =
     map message (js_slice_neg (n - 1) (logs w)) @ [m]"
  by (simp add: logs_addLog js_slice_neg_twice js_slice_neg_snoc)

lemma processFailedPayment_steps:
  assumes "normalize ev = Inr pd"
  shows "processFailedPayment env ev w =
     (case addToAirtable env pd
             (snd (sendGmailAlert env pd (record_call (Enter_processFailedPayment ev) w))) of
        (Inl e, w2) \<Rightarrow>
          (Inl e, addLog env (''Error processing failed payment: '' @ error_message e) w2)
      | (Inr r, w2) \<Rightarrow>
          (Inr (),
           addLog env
             (''Successfully processed failed payment: '' @ js_String (payment_id pd)) w2))"
proof -
  obtain x w1 where s: "sendGmailAlert env pd (record_call (Enter_processFailedPayment ev) w) = (x, w1)"
    by (cases "sendGmailAlert env pd (record_call (Enter_processFailedPayment ev) w)")
  have x: "x = Inr ()"
    using sendGmailAlert_returns [of env pd "record_call (Enter_processFailedPayment ev) w"] s
    by simp
  show ?thesis
    by (simp add: processFailedPayment_def processFailedPayment_try_def assms s x
        split: prod.split sum.split)
qed

lemma addToAirtable_throws:
  assumes "currency pd = Val c"
    and "table_create env (airtable_row (map upper_char c) (clock env (ticks w)) pd) = Inl e"
  shows "addToAirtable env pd w =
     (Inl e,
      addLog env (''Error adding to Airtable: '' @ error_message e)
        (record_call
           (Call_table_create (airtable_row (map upper_char c) (clock env (ticks w)) pd))
           ((record_call (Enter_addToAirtable pd) w)\<lparr>ticks := Suc (ticks w)\<rparr>)))"
  using assms
  by (simp add: addToAirtable_def addToAirtable_try_def Let_def ticks_record_call)

lemma addToAirtable_returns:
  assumes "currency pd = Val c"
    and "table_create env (airtable_row (map upper_char c) (clock env (ticks w)) pd) = Inr (r # rs)"
  shows "addToAirtable env pd w =
     (Inr r,
      addLog env (''Added to Airtable: '' @ rec_id r)
        (record_call
           (Call_table_create (airtable_row (map upper_char c) (clock env (ticks w)) pd))
           ((record_call (Enter_addToAirtable pd) w)\<lparr>ticks := Suc (ticks w)\<rparr>)))"
  using assms
  by (simp add: addToAirtable_def addToAirtable_try_def Let_def ticks_record_call)

lemma processFailedPayment_trace:
  assumes "normalize ev = Inr pd"
  shows "trace (snd (processFailedPayment env ev w)) =
     trace w @ [Enter_processFailedPayment ev, Enter_sendGmailAlert pd] @
     (case alert_body pd of
        Inl e \<Rightarrow> []
      | Inr b \<Rightarrow> [Call_gmail_send (encode_raw (alert_message env (alert_subject pd) b))]) @
     [Enter_addToAirtable pd] @
     (case js_toUpperCase (currency pd) of
        Inl e \<Rightarrow> []
      | Inr cur \<Rightarrow> [Call_table_create (airtable_row cur (clock env (Suc (ticks w))) pd)])"
proof -
  let ?w1 = "snd (sendGmailAlert env pd (record_call (Enter_processFailedPayment ev) w))"
  have t: "trace (snd (processFailedPayment env ev w)) = trace (snd (addToAirtable env pd ?w1))"
    unfolding processFailedPayment_steps [OF assms]
    by (cases "addToAirtable env pd ?w1") (simp add: trace_addLog split: sum.split)
  show ?thesis
    unfolding t addToAirtable_trace sendGmailAlert_trace sendGmailAlert_ticks
      trace_record_call ticks_record_call
    by simp
qed

text \<open>
  C5. When the signature check throws, the route answers 400 with the error's message,
  the world it returns is the old one with one more log entry, about the verification
  error, and the trace is unchanged: neither the pipeline (which holds the normalizer),
  nor a sink, nor a remote service was entered.
\<close>

theorem bad_signature_is_rejected:
  assumes "constructEvent env (body req) (stripe_signature req) = Inl err"
  shows "webhook_stripe env req w =
           (\<lparr>status = 400, sent = Send (''Webhook Error: '' @ error_message err)\<rparr>,
            addLog env (''Webhook signature verification failed: '' @ error_message err) w) \<and>
         trace (snd (webhook_stripe env req w)) = trace w \<and>
         map message (js_slice_neg 1 (logs (snd (webhook_stripe env req w)))) =
           [''Webhook signature verification failed: '' @ error_message err]"
  using assms
  by (simp add: webhook_stripe_def trace_addLog recent_addLog js_slice_neg_0)

lemma demo_bad_signature:
  "constructEvent demo_env (body (demo_request\<lparr>stripe_signature := Undefined\<rparr>))
     (stripe_signature (demo_request\<lparr>stripe_signature := Undefined\<rparr>)) =
   Inl (JsError ''StripeSignatureVerificationError''
          ''No signatures found matching the expected signature for payload.'')"
  by (simp add: demo_env_def demo_request_def demo_verifier_def)

theorem bad_signature_is_rejected_witness:
  "constructEvent demo_env (body (demo_request\<lparr>stripe_signature := Undefined\<rparr>))
     (stripe_signature (demo_request\<lparr>stripe_signature := Undefined\<rparr>)) =
   Inl (JsError ''StripeSignatureVerificationError''
          ''No signatures found matching the expected signature for payload.'') \<and>
   fst (webhook_stripe demo_env (demo_request\<lparr>stripe_signature := Undefined\<rparr>) initial_world) =
     \<lparr>status = 400,
      sent = Send ''Webhook Error: No signatures found matching the expected signature for payload.''\<rparr> \<and>
   trace (snd (webhook_stripe demo_env (demo_request\<lparr>stripe_signature := Undefined\<rparr>)
     initial_world)) = []"
  using bad_signature_is_rejected [OF demo_bad_signature, of initial_world] demo_bad_signature
  by (simp add: trace_addLog initial_world_def)

text \<open>
  C4. Take a request that passes the signature check with a recognized event that
  normalizes to a record with a currency. If \<open>table.create\<close> throws \<open>e\<close> on the row, the
  Recorder returns \<open>e\<close> as an error, so does the pipeline, the route answers 500, and the
  last three log entries are the Recorder's, the pipeline's and the route's, in that
  order. If \<open>table.create\<close> answers with a record, the Recorder returns it and the route
  answers 200 with \<open>{received: true}\<close>. Both hold whatever Gmail does.
\<close>

theorem recorder_failure_gives_500:
  assumes "constructEvent env (body req) (stripe_signature req) = Inr ev"
    and "ev_type ev \<in> set recognized_types"
    and "normalize ev = Inr pd"
    and "currency pd = Val c"
  shows "(table_create env (airtable_row (map upper_char c) (clock env (Suc (ticks w))) pd) = Inl e \<longrightarrow>
            fst (addToAirtable env pd
                   (snd (sendGmailAlert env pd (record_call (Enter_processFailedPayment ev) w)))) =
              Inl e \<and>
            fst (processFailedPayment env ev w) = Inl e \<and>
            fst (webhook_stripe env req w) =
              \<lparr>status = 500, sent = Send ''Internal Server Error''\<rparr> \<and>
            map message (js_slice_neg 3 (logs (snd (webhook_stripe env req w)))) =
              [''Error adding to Airtable: '' @ error_message e,
               ''Error processing failed payment: '' @ error_message e,
               ''Error processing webhook: '' @ error_message e]) \<and>
         (table_create env (airtable_row (map upper_char c) (clock env (Suc (ticks w))) pd) =
            Inr (r # rs) \<longrightarrow>
            fst (addToAirtable env pd
                   (snd (sendGmailAlert env pd (record_call (Enter_processFailedPayment ev) w)))) =
              Inr r \<and>
            fst (processFailedPayment env ev w) = Inr () \<and>
            fst (webhook_stripe env req w) = \<lparr>status = 200, sent = Json_received True\<rparr>)"
proof (intro conjI impI)
  let ?w1 = "snd (sendGmailAlert env pd (record_call (Enter_processFailedPayment ev) w))"
  have k: "ticks ?w1 = Suc (ticks w)"
    by (simp add: sendGmailAlert_ticks ticks_record_call)
  {
    assume f: "table_create env (airtable_row (map upper_char c) (clock env (Suc (ticks w))) pd) = Inl e"
    have a: "addToAirtable env pd ?w1 =
        (Inl e,
         addLog env (''Error adding to Airtable: '' @ error_message e)
           (record_call
              (Call_table_create (airtable_row (map upper_char c) (clock env (ticks ?w1)) pd))
              ((record_call (Enter_addToAirtable pd) ?w1)\<lparr>ticks := Suc (ticks ?w1)\<rparr>)))"
      using f by (intro addToAirtable_throws assms) (simp add: k)
    show "fst (addToAirtable env pd ?w1) = Inl e"
      by (simp add: a)
    show p: "fst (processFailedPayment env ev w) = Inl e"
      by (simp add: processFailedPayment_steps [OF assms(3)] a)
    show "fst (webhook_stripe env req w) = \<lparr>status = 500, sent = Send ''Internal Server Error''\<rparr>"
      using p by (cases "processFailedPayment env ev w") (simp add: webhook_stripe_def assms(1,2))
    show "map message (js_slice_neg 3 (logs (snd (webhook_stripe env req w)))) =
              [''Error adding to Airtable: '' @ error_message e,
               ''Error processing failed payment: '' @ error_message e,
               ''Error processing webhook: '' @ error_message e]"
      by (simp add: webhook_stripe_def assms(1,2) processFailedPayment_steps [OF assms(3)] a
          recent_addLog js_slice_neg_0)
  }
  {
    assume s: "table_create env (airtable_row (map upper_char c) (clock env (Suc (ticks w))) pd) =
        Inr (r # rs)"
    have a: "addToAirtable env pd ?w1 =
        (Inr r,
         addLog env (''Added to Airtable: '' @ rec_id r)
           (record_call
              (Call_table_create (airtable_row (map upper_char c) (clock env (ticks ?w1)) pd))
              ((record_call (Enter_addToAirtable pd) ?w1)\<lparr>ticks := Suc (ticks ?w1)\<rparr>)))"
      using s by (intro addToAirtable_returns [where rs = rs] assms) (simp add: k)
    show "fst (addToAirtable env pd ?w1) = Inr r"
      by (simp add: a)
    show p: "fst (processFailedPayment env ev w) = Inr ()"
      by (simp add: processFailedPayment_steps [OF assms(3)] a)
    show "fst (webhook_stripe env req w) = \<lparr>status = 200, sent = Json_received True\<rparr>"
      using p by (cases "processFailedPayment env ev w") (simp add: webhook_stripe_def assms(1,2))
  }
qed

lemma demo_verified:
  "constructEvent demo_env (body demo_request) (stripe_signature demo_request) = Inr demo_event"
  by (simp add: demo_env_def demo_request_def demo_verifier_def)

lemma demo_recognized: "ev_type demo_event \<in> set recognized_types"
  by (simp add: demo_event_def recognized_types_def)

lemma demo_currency: "currency demo_payment = Val ''usd''"
  by (simp add: demo_payment_def)

theorem recorder_failure_gives_500_witness:
  "constructEvent failing_store_env (body demo_request) (stripe_signature demo_request) =
     Inr demo_event \<and>
   ev_type demo_event \<in> set recognized_types \<and>
   normalize demo_event = Inr demo_payment \<and>
   currency demo_payment = Val ''usd'' \<and>
   table_create failing_store_env
     (airtable_row (map upper_char ''usd'') (clock failing_store_env (Suc (ticks initial_world)))
        demo_payment) = Inl boom \<and>
   gmail_send failing_store_env
     (encode_raw (alert_message failing_store_env (alert_subject demo_payment)
        (body_text demo_payment ''25.00'' ''USD''))) = Inr () \<and>
   fst (webhook_stripe failing_store_env demo_request initial_world) =
     \<lparr>status = 500, sent = Send ''Internal Server Error''\<rparr> \<and>
   map message (js_slice_neg 3 (logs (snd (webhook_stripe failing_store_env demo_request initial_world)))) =
     [''Error adding to Airtable: boom'', ''Error processing failed payment: boom'',
      ''Error processing webhook: boom'']"
proof -
  have v: "constructEvent failing_store_env (body demo_request) (stripe_signature demo_request) =
      Inr demo_event"
    using demo_verified by (simp add: failing_store_env_def demo_env_def)
  have f: "table_create failing_store_env
     (airtable_row (map upper_char ''usd'') (clock failing_store_env (Suc (ticks initial_world)))
        demo_payment) = Inl boom"
    by (simp add: failing_store_env_def)
  have g: "gmail_send failing_store_env
     (encode_raw (alert_message failing_store_env (alert_subject demo_payment)
        (body_text demo_payment ''25.00'' ''USD''))) = Inr ()"
    by (simp add: failing_store_env_def demo_env_def)
  have m: "error_message boom = ''boom''"
    by (simp add: boom_def)
  show ?thesis
    using recorder_failure_gives_500 [OF v demo_recognized normalize_demo_event demo_currency,
        of initial_world boom "\<lparr>rec_id = ''rec1''\<rparr>" "[]"]
      v demo_recognized normalize_demo_event demo_currency f g m
    by simp
qed

lemma sendGmailAlert_throws:
  assumes "alert_body pd = Inr b"
    and "gmail_send env (encode_raw (alert_message env (alert_subject pd) b)) = Inl e"
  shows "sendGmailAlert env pd w =
     (Inr (),
      addLog env (''Error sending Gmail alert: '' @ error_message e)
        (record_call (Call_gmail_send (encode_raw (alert_message env (alert_subject pd) b)))
           (record_call (Enter_sendGmailAlert pd) w)))"
  using assms by (simp add: sendGmailAlert_def sendGmailAlert_try_def Let_def)

text \<open>
  C3. \<open>sendGmailAlert\<close> returns normally for every record, every world and every
  behaviour of Gmail. In the pipeline the Recorder is entered with the record the
  Dispatcher was entered with, after it, whatever the Dispatcher did, and the pipeline's
  result is the Recorder's. In particular, when Gmail throws and \<open>table.create\<close> answers
  with a record, the Recorder returns that record, the pipeline returns normally, and the
  log ends with the Dispatcher's error, the Recorder's success and the pipeline's success.
\<close>

theorem dispatcher_failure_is_contained:
  "fst (sendGmailAlert env pd w) = Inr () \<and>
   (normalize ev = Inr pd \<longrightarrow>
      trace (snd (processFailedPayment env ev w)) =
        trace w @ [Enter_processFailedPayment ev, Enter_sendGmailAlert pd] @
        (case alert_body pd of
           Inl x \<Rightarrow> []
         | Inr b \<Rightarrow> [Call_gmail_send (encode_raw (alert_message env (alert_subject pd) b))]) @
        [Enter_addToAirtable pd] @
        (case js_toUpperCase (currency pd) of
           Inl x \<Rightarrow> []
         | Inr cur \<Rightarrow> [Call_table_create (airtable_row cur (clock env (Suc (ticks w))) pd)]) \<and>
      fst (processFailedPayment env ev w) =
        map_sum id (\<lambda>r. ())
          (fst (addToAirtable env pd
                  (snd (sendGmailAlert env pd (record_call (Enter_processFailedPayment ev) w)))))) \<and>
   (normalize ev = Inr pd \<and> currency pd = Val c \<and> alert_body pd = Inr b \<and>
    gmail_send env (encode_raw (alert_message env (alert_subject pd) b)) = Inl e \<and>
    table_create env (airtable_row (map upper_char c) (clock env (Suc (ticks w))) pd) =
      Inr (r # rs) \<longrightarrow>
      fst (addToAirtable env pd
             (snd (sendGmailAlert env pd (record_call (Enter_processFailedPayment ev) w)))) =
        Inr r \<and>
      fst (processFailedPayment env ev w) = Inr () \<and>
      map message (js_slice_neg 3 (logs (snd (processFailedPayment env ev w)))) =
        [''Error sending Gmail alert: '' @ error_message e,
         ''Added to Airtable: '' @ rec_id r,
         ''Successfully processed failed payment: '' @ js_String (payment_id pd)])"
proof (intro conjI impI)
  let ?w0 = "record_call (Enter_processFailedPayment ev) w"
  let ?w1 = "snd (sendGmailAlert env pd ?w0)"
  show "fst (sendGmailAlert env pd w) = Inr ()"
    by (rule sendGmailAlert_returns)
  {
    assume n: "normalize ev = Inr pd"
    show "trace (snd (processFailedPayment env ev w)) =
        trace w @ [Enter_processFailedPayment ev, Enter_sendGmailAlert pd] @
        (case alert_body pd of
           Inl x \<Rightarrow> []
         | Inr b \<Rightarrow> [Call_gmail_send (encode_raw (alert_message env (alert_subject pd) b))]) @
        [Enter_addToAirtable pd] @
        (case js_toUpperCase (currency pd) of
           Inl x \<Rightarrow> []
         | Inr cur \<Rightarrow> [Call_table_create (airtable_row cur (clock env (Suc (ticks w))) pd)])"
      by (rule processFailedPayment_trace [OF n])
    show "fst (processFailedPayment env ev w) =
        map_sum id (\<lambda>r. ()) (fst (addToAirtable env pd ?w1))"
      unfolding processFailedPayment_steps [OF n]
      by (cases "addToAirtable env pd ?w1") (simp split: sum.split)
  }
  {
    assume h: "normalize ev = Inr pd \<and> currency pd = Val c \<and> alert_body pd = Inr b \<and>
      gmail_send env (encode_raw (alert_message env (alert_subject pd) b)) = Inl e \<and>
      table_create env (airtable_row (map upper_char c) (clock env (Suc (ticks w))) pd) =
        Inr (r # rs)"
    then have n: "normalize ev = Inr pd" and c: "currency pd = Val c"
      and b: "alert_body pd = Inr b"
      and g: "gmail_send env (encode_raw (alert_message env (alert_subject pd) b)) = Inl e"
      and t: "table_create env (airtable_row (map upper_char c) (clock env (Suc (ticks w))) pd) =
        Inr (r # rs)"
      by simp_all
    have k: "ticks ?w1 = Suc (ticks w)"
      by (simp add: sendGmailAlert_ticks ticks_record_call)
    have s: "?w1 =
        addLog env (''Error sending Gmail alert: '' @ error_message e)
          (record_call (Call_gmail_send (encode_raw (alert_message env (alert_subject pd) b)))
             (record_call (Enter_sendGmailAlert pd) ?w0))"
      by (simp add: sendGmailAlert_throws [OF b g])
    have a: "addToAirtable env pd ?w1 =
        (Inr r,
         addLog env (''Added to Airtable: '' @ rec_id r)
           (record_call
              (Call_table_create (airtable_row (map upper_char c) (clock env (ticks ?w1)) pd))
              ((record_call (Enter_addToAirtable pd) ?w1)\<lparr>ticks := Suc (ticks ?w1)\<rparr>)))"
      using t by (intro addToAirtable_returns [where rs = rs] c) (simp add: k)
    show "fst (addToAirtable env pd ?w1) = Inr r"
      by (simp add: a)
    show "fst (processFailedPayment env ev w) = Inr ()"
      by (simp add: processFailedPayment_steps [OF n] a)
    have l: "map message (js_slice_neg (Suc 0) (logs ?w1)) =
        [''Error sending Gmail alert: '' @ error_message e]"
      by (subst s) (simp add: recent_addLog js_slice_neg_0)
    show "map message (js_slice_neg 3 (logs (snd (processFailedPayment env ev w)))) =
        [''Error sending Gmail alert: '' @ error_message e,
         ''Added to Airtable: '' @ rec_id r,
         ''Successfully processed failed payment: '' @ js_String (payment_id pd)]"
      by (simp add: processFailedPayment_steps [OF n] a recent_addLog logs_record_call l)
  }
qed

lemma demo_alert_body: "alert_body demo_payment = Inr (body_text demo_payment ''25.00'' ''USD'')"
proof -
  have "alert_body demo_payment =
      Inr (body_text demo_payment (cents_string 2500) (map upper_char ''usd''))"
    unfolding alert_body_def demo_payment_def
    by (simp add: toFixed2_cents del: js_toFixed2.simps js_div100.simps)
  then show ?thesis by (simp only: cents_2500 upper_usd)
qed

theorem dispatcher_failure_is_contained_witness:
  "normalize demo_event = Inr demo_payment \<and>
   currency demo_payment = Val ''usd'' \<and>
   alert_body demo_payment = Inr (body_text demo_payment ''25.00'' ''USD'') \<and>
   gmail_send failing_gmail_env
     (encode_raw (alert_message failing_gmail_env (alert_subject demo_payment)
        (body_text demo_payment ''25.00'' ''USD''))) = Inl boom \<and>
   table_create failing_gmail_env
     (airtable_row (map upper_char ''usd'') (clock failing_gmail_env (Suc (ticks initial_world)))
        demo_payment) = Inr [\<lparr>rec_id = ''rec1''\<rparr>] \<and>
   fst (sendGmailAlert failing_gmail_env demo_payment initial_world) = Inr () \<and>
   fst (addToAirtable failing_gmail_env demo_payment
          (snd (sendGmailAlert failing_gmail_env demo_payment
                  (record_call (Enter_processFailedPayment demo_event) initial_world)))) =
     Inr \<lparr>rec_id = ''rec1''\<rparr> \<and>
   fst (processFailedPayment failing_gmail_env demo_event initial_world) = Inr () \<and>
   map message
     (js_slice_neg 3 (logs (snd (processFailedPayment failing_gmail_env demo_event initial_world)))) =
     [''Error sending Gmail alert: boom'', ''Added to Airtable: rec1'',
      ''Successfully processed failed payment: ch_1'']"
proof -
  have g: "gmail_send failing_gmail_env
     (encode_raw (alert_message failing_gmail_env (alert_subject demo_payment)
        (body_text demo_payment ''25.00'' ''USD''))) = Inl boom"
    by (simp add: failing_gmail_env_def)
  have t: "table_create failing_gmail_env
     (airtable_row (map upper_char ''usd'') (clock failing_gmail_env (Suc (ticks initial_world)))
        demo_payment) = Inr [\<lparr>rec_id = ''rec1''\<rparr>]"
    by (simp add: failing_gmail_env_def demo_env_def)
  have m: "error_message boom = ''boom''"
    by (simp add: boom_def)
  have p: "js_String (payment_id demo_payment) = ''ch_1''"
    by (simp add: demo_payment_def)
  show ?thesis
    using dispatcher_failure_is_contained [of failing_gmail_env demo_payment initial_world
        demo_event "''usd''" "body_text demo_payment ''25.00'' ''USD''" boom
        "\<lparr>rec_id = ''rec1''\<rparr>" "[]"]
      normalize_demo_event demo_currency demo_alert_body g t m p
    by simp
qed

subsection \<open>The failure time\<close>

lemma normalize_failed_at:
  assumes "ev_type ev \<in> set recognized_types"
  shows "map_sum id failed_at (normalize ev) =
     map_sum id Val (toISOString (new_Date (js_times1000 (created ev))))"
  using assms
  by (auto simp add: normalize_def recognized_types_def Let_def split: sum.split)

text \<open>
  C7. For a recognized event, normalizing throws exactly when \<open>new Date(event.created *
  1000).toISOString()\<close> throws, and otherwise the record's \<open>failed_at\<close> is that string; for
  an integer \<open>created\<close> within the range of Date it is the ISO-8601 form of \<open>created *
  1000\<close> milliseconds. The right-hand side mentions neither the clock nor the world. The
  pipeline enters both sinks with that record under every clock and in every world, and
  the Recorder's \<open>Failed At\<close> column is the record's \<open>failed_at\<close>, whereas \<open>Created At\<close> is
  the clock's reading.
\<close>

theorem failed_at_is_event_creation_time:
  assumes "ev_type ev \<in> set recognized_types"
  shows "map_sum id failed_at (normalize ev) =
           map_sum id Val (toISOString (new_Date (js_times1000 (created ev)))) \<and>
         (created ev = Val c \<and> \<bar>c * 1000\<bar> \<le> 8640000000000000 \<longrightarrow>
            map_sum id failed_at (normalize ev) = Inr (Val (iso_string (c * 1000)))) \<and>
         (normalize ev = Inr pd \<longrightarrow>
            trace (snd (processFailedPayment env ev w)) =
              trace w @ [Enter_processFailedPayment ev, Enter_sendGmailAlert pd] @
              (case alert_body pd of
                 Inl x \<Rightarrow> []
               | Inr b \<Rightarrow> [Call_gmail_send (encode_raw (alert_message env (alert_subject pd) b))]) @
              [Enter_addToAirtable pd] @
              (case js_toUpperCase (currency pd) of
                 Inl x \<Rightarrow> []
               | Inr cur \<Rightarrow> [Call_table_create (airtable_row cur (clock env (Suc (ticks w))) pd)]) \<and>
            Failed_At (airtable_row cur now pd) = failed_at pd \<and>
            Created_At (airtable_row cur now pd) = now)"
proof (intro conjI impI)
  show f: "map_sum id failed_at (normalize ev) =
           map_sum id Val (toISOString (new_Date (js_times1000 (created ev))))"
    using assms by (rule normalize_failed_at)
  {
    assume "created ev = Val c \<and> \<bar>c * 1000\<bar> \<le> 8640000000000000"
    then show "map_sum id failed_at (normalize ev) = Inr (Val (iso_string (c * 1000)))"
      unfolding f by simp
  }
  {
    assume n: "normalize ev = Inr pd"
    show "trace (snd (processFailedPayment env ev w)) =
              trace w @ [Enter_processFailedPayment ev, Enter_sendGmailAlert pd] @
              (case alert_body pd of
                 Inl x \<Rightarrow> []
               | Inr b \<Rightarrow> [Call_gmail_send (encode_raw (alert_message env (alert_subject pd) b))]) @
              [Enter_addToAirtable pd] @
              (case js_toUpperCase (currency pd) of
                 Inl x \<Rightarrow> []
               | Inr cur \<Rightarrow> [Call_table_create (airtable_row cur (clock env (Suc (ticks w))) pd)])"
      by (rule processFailedPayment_trace [OF n])
    show "Failed_At (airtable_row cur now pd) = failed_at pd"
      by (simp add: airtable_row_def)
    show "Created_At (airtable_row cur now pd) = now"
      by (simp add: airtable_row_def)
  }
qed

lemma demo_created:
  "created demo_event = Val 1756505351 \<and> \<bar>(1756505351 :: int) * 1000\<bar> \<le> 8640000000000000"
  by (simp add: demo_event_def)

lemma demo_iso: "iso_string (1756505351 * 1000) = ''2025-08-29T22:09:11.000Z''"
  by code_simp

theorem failed_at_is_event_creation_time_witness:
  "ev_type demo_event \<in> set recognized_types \<and>
   created demo_event = Val 1756505351 \<and> \<bar>(1756505351 :: int) * 1000\<bar> \<le> 8640000000000000 \<and>
   normalize demo_event = Inr demo_payment \<and>
   map_sum id failed_at (normalize demo_event) = Inr (Val ''2025-08-29T22:09:11.000Z'') \<and>
   failed_at demo_payment = Val ''2025-08-29T22:09:11.000Z'' \<and>
   Failed_At (airtable_row ''USD'' (clock demo_env 1) demo_payment) =
     Val ''2025-08-29T22:09:11.000Z''"
proof -
  have "failed_at demo_payment = Val ''2025-08-29T22:09:11.000Z''"
    by (simp add: demo_payment_def)
  then show ?thesis
    using failed_at_is_event_creation_time [OF demo_recognized, of 1756505351 demo_payment
        demo_env initial_world "''USD''" "clock demo_env 1"]
      demo_recognized demo_created normalize_demo_event demo_iso
    by simp
qed

subsection \<open>The body the signature check receives\<close>

lemma json_body_reaches_handler_parsed:
  assumes "JSON_parse env bs = Inr j"
  shows "middleware env (incoming sig True True bs) =
     Inr \<lparr>stripe_signature = sig, body = Body_parsed j\<rparr>"
  using assms
  by (simp add: middleware_def express_json_def express_raw_def incoming_def Let_def)

lemma handler_never_receives_buffer:
  assumes "middleware env (incoming sig has_body is_json bs) = Inr req"
  shows "body req \<noteq> Body_buffer b"
  using assms
  by (auto simp add: middleware_def express_json_def express_raw_def incoming_def Let_def
      split: if_splits sum.splits)

lemma webhook_stripe_ok:
  assumes "constructEvent env (body req) (stripe_signature req) = Inr ev"
    and "ev_type ev \<in> set recognized_types"
    and "normalize ev = Inr pd"
    and "currency pd = Val c"
    and "table_create env (airtable_row (map upper_char c) (clock env (Suc (ticks w))) pd) =
      Inr (r # rs)"
  shows "fst (webhook_stripe env req w) = \<lparr>status = 200, sent = Json_received True\<rparr>"
proof -
  let ?w1 = "snd (sendGmailAlert env pd (record_call (Enter_processFailedPayment ev) w))"
  have k: "ticks ?w1 = Suc (ticks w)"
    by (simp add: sendGmailAlert_ticks ticks_record_call)
  have a: "fst (addToAirtable env pd ?w1) = Inr r"
    using addToAirtable_returns [of pd c env ?w1 r rs] assms(4,5) by (simp add: k)
  have p: "fst (processFailedPayment env ev w) = Inr ()"
    unfolding processFailedPayment_steps [OF assms(3)]
    using a by (cases "addToAirtable env pd ?w1") simp
  show ?thesis
    using p by (cases "processFailedPayment env ev w") (simp add: webhook_stripe_def assms(1,2))
qed

text \<open>
  C2 fails on the code. \<open>demo_incoming\<close> is a request with content type
  \<open>application/json\<close>, the bytes \<open>demo_bytes\<close> and the signature that the verifier accepts
  for these bytes. Because \<open>express.json()\<close> is registered before \<open>express.raw(...)\<close>, it
  reads the body first and \<open>express.raw\<close> then skips the request: the handler passes the
  parsed object to the verifier, which rejects it, and the route answers 400. Given the
  Buffer of the same bytes, the handler accepts the request.
\<close>

theorem signed_request_reaches_verifier_parsed:
  "constructEvent demo_env (Body_buffer demo_bytes) (Val ''good'') = Inr demo_event \<and>
   middleware demo_env demo_incoming =
     Inr \<lparr>stripe_signature = Val ''good'',
          body = Body_parsed (JObject [(''type'', JString ''charge.failed'')])\<rparr> \<and>
   fst (post_webhook_stripe demo_env demo_incoming initial_world) =
     \<lparr>status = 400,
      sent = Send ''Webhook Error: Webhook payload must be provided as a string or a Buffer instance.''\<rparr> \<and>
   fst (webhook_stripe demo_env demo_request initial_world) =
     \<lparr>status = 200, sent = Json_received True\<rparr>"
proof -
  have p: "JSON_parse demo_env demo_bytes = Inr (JObject [(''type'', JString ''charge.failed'')])"
    by (simp add: demo_env_def)
  have m: "middleware demo_env demo_incoming =
     Inr \<lparr>stripe_signature = Val ''good'',
          body = Body_parsed (JObject [(''type'', JString ''charge.failed'')])\<rparr>"
    unfolding demo_incoming_def by (rule json_body_reaches_handler_parsed [OF p])
  have v: "constructEvent demo_env (Body_buffer demo_bytes) (Val ''good'') = Inr demo_event"
    by (simp add: demo_env_def demo_verifier_def)
  have r: "constructEvent demo_env (Body_parsed (JObject [(''type'', JString ''charge.failed'')]))
      (Val ''good'') =
      Inl (JsError ''StripeSignatureVerificationError''
            ''Webhook payload must be provided as a string or a Buffer instance.'')"
    by (simp add: demo_env_def demo_verifier_def)
  have t: "table_create demo_env
      (airtable_row (map upper_char ''usd'') (clock demo_env (Suc (ticks initial_world)))
         demo_payment) = Inr [\<lparr>rec_id = ''rec1''\<rparr>]"
    by (simp add: demo_env_def)
  have ok: "fst (webhook_stripe demo_env demo_request initial_world) =
      \<lparr>status = 200, sent = Json_received True\<rparr>"
    by (rule webhook_stripe_ok [OF demo_verified demo_recognized normalize_demo_event
          demo_currency t])
  have bad: "fst (post_webhook_stripe demo_env demo_incoming initial_world) =
     \<lparr>status = 400,
      sent = Send ''Webhook Error: Webhook payload must be provided as a string or a Buffer instance.''\<rparr>"
    by (simp add: post_webhook_stripe_def m webhook_stripe_def r)
  show ?thesis
    using v m bad ok by simp
qed

end
